theory Spec2Isabelle
  imports Main
begin

section \<open>The WebSocket channel handler of courier (handlers/websocket/websocket.go)\<close>

text \<open>
  The handler is a translation layer between a provider's webhooks and the host's
  message model. Everything it reaches through an interface (the backend, the HTTP
  client, the URN, language and JSON libraries) is a parameter of the model: the
  libraries are the fields of an \<open>env\<close> record, the backend is a record of
  state-passing operations. A Go \<open>panic\<close> is the result \<open>Panics\<close>.
\<close>

subsection \<open>Values of the host\<close>

text \<open>Go's \<open>error\<close>: the sentinel \<open>courier.ErrMsgNotFound\<close>, or any other error value.\<close>

datatype error = ErrMsgNotFound | Err string

text \<open>What a Go function does: it returns its results, or it panics.\<close>

datatype 'a result = Returns 'a | Panics string

datatype MsgStatusValue = MsgQueued | MsgSent | MsgDelivered | MsgErrored | MsgWired

type_synonym MsgID = int

record URN =
  Scheme :: string
  Path :: string

record Channel =
  Schemes :: "string list"
  Address :: string

record Contact =
  UUID :: string

text \<open>
  Modelled from the spec: the \<open>courier.Msg\<close> interface is implemented by the backend,
  outside this file. The fields are the ones the handler reads and sets (spec section 3:
  external id, sender identity, received timestamp, text, attachment, sender display
  name; id, text, recipient, quick replies, attachments). \<open>AlreadySeen\<close> is the mark the
  backend's deduplication check leaves on a message ("second submission detected as
  already seen"). \<open>ReceivedOn\<close> is in seconds since the epoch, UTC.
\<close>

record Msg =
  Channel :: Channel
  ID :: MsgID
  URN :: URN
  Text :: string
  Attachments :: "string list"
  QuickReplies :: "string list"
  ExternalID :: string
  ReceivedOn :: int
  ContactName :: string
  AlreadySeen :: bool

record Request =
  Method :: string
  URL :: string
  Header :: "(string \<times> string) list"
  Body :: string

record RequestResponse =
  StatusCode :: int
  Response :: string

text \<open>
  Modelled from the spec: \<open>courier.ChannelLog\<close> ("a structured log of the attempt
  (request/response, timing, error if any)"). \<open>RR\<close> is \<open>None\<close> for a log built without a
  request.
\<close>

record ChannelLog =
  Description :: string
  RR :: "RequestResponse option"
  Error :: "error option"

definition NewChannelLog :: "string \<Rightarrow> error option \<Rightarrow> ChannelLog" where
  "NewChannelLog description err = \<lparr>Description = description, RR = None, Error = err\<rparr>"

definition NewChannelLogFromRR :: "string \<Rightarrow> RequestResponse \<Rightarrow> ChannelLog" where
  "NewChannelLogFromRR description rr = \<lparr>Description = description, RR = Some rr, Error = None\<rparr>"

definition WithError :: "string \<Rightarrow> error option \<Rightarrow> ChannelLog \<Rightarrow> ChannelLog" where
  "WithError description err l =
     (case err of
        None \<Rightarrow> l
      | Some e \<Rightarrow> l\<lparr>Description := description, Error := Some e\<rparr>)"

text \<open>
  Modelled from the spec: \<open>courier.MsgStatus\<close> ("one status object per outbound
  message"), created by the backend for a message id or for an external id.
\<close>

record MsgStatus =
  Channel :: Channel
  ID :: "MsgID option"
  ExternalID :: string
  Status :: MsgStatusValue
  Logs :: "ChannelLog list"

definition NewMsgStatusForID :: "Channel \<Rightarrow> MsgID \<Rightarrow> MsgStatusValue \<Rightarrow> MsgStatus" where
  "NewMsgStatusForID channel msgID status =
     \<lparr>MsgStatus.Channel = channel, MsgStatus.ID = Some msgID, MsgStatus.ExternalID = '''',
      MsgStatus.Status = status, Logs = []\<rparr>"

definition NewMsgStatusForExternalID :: "Channel \<Rightarrow> string \<Rightarrow> MsgStatusValue \<Rightarrow> MsgStatus" where
  "NewMsgStatusForExternalID channel externalID status =
     \<lparr>MsgStatus.Channel = channel, MsgStatus.ID = None, MsgStatus.ExternalID = externalID,
      MsgStatus.Status = status, Logs = []\<rparr>"

subsection \<open>The payloads of websocket.go\<close>

record userPayload =
  URN :: string
  Language :: string

record dataPayload =
  ID :: string
  Text :: string
  To :: string
  ToNoPlus :: string
  From :: string
  FromNoPlus :: string
  Channel :: string
  Metadata :: "(string \<times> string list) list"
  Attachments :: "string list"

text \<open>
  Modelled from the spec: \<open>moPayload\<close> is used by \<open>receiveMessage\<close> and declared
  outside this file. Section 6 gives the body of \<open>POST /receive\<close>:
  \<open>{instanceId, messages: [{fromMe, time, author, senderName, body, caption, type, id}],
  ack: [{id, status}]}\<close>.
\<close>

record moMessage =
  ID :: string
  Body :: string
  Type :: string
  Caption :: string
  SenderName :: string
  Author :: string
  FromMe :: bool
  Time :: int

record moAck =
  ID :: string
  Status :: string

record moPayload =
  InstanceID :: string
  Messages :: "moMessage list"
  Ack :: "moAck list"

subsection \<open>Libraries\<close>

text \<open>
  \<open>strings.Replace s old new n\<close> for \<open>n \<ge> 0\<close>: the first \<open>n\<close> non-overlapping
  occurrences of \<open>old\<close>, from the left, are replaced by \<open>new\<close>. An empty \<open>old\<close> matches
  before each character (bytes here, so this case is Go's on ASCII text); the handler
  only calls it with a non-empty \<open>old\<close>.
\<close>

function strings_Replace :: "string \<Rightarrow> string \<Rightarrow> string \<Rightarrow> nat \<Rightarrow> string" where
  "strings_Replace s old new 0 = s"
| "strings_Replace [] old new (Suc n) = (if old = [] then new else [])"
| "strings_Replace (c # cs) old new (Suc n) =
     (if old = [] then new @ c # strings_Replace cs old new n
      else if take (length old) (c # cs) = old
        then new @ strings_Replace (drop (length old) (c # cs)) old new n
      else c # strings_Replace cs old new (Suc n))"
  by pat_completeness auto
termination
  by (relation "measure (\<lambda>(s, old, new, n). n + length s)") auto

text \<open>
  The libraries and the HTTP client, as the handler calls them:
  \<^item> \<open>json_Marshal\<close>: \<open>json.Marshal\<close> on the send payload;
  \<^item> \<open>http_NewRequest\<close>: \<open>http.NewRequest\<close> (method, url, body), which fails on a URL it
    cannot parse;
  \<^item> \<open>MakeHTTPRequest\<close>: \<open>utils.MakeHTTPRequest\<close>, the outcome of the transport;
  \<^item> \<open>NewURNFromParts\<close>, \<open>NewWhatsAppURN\<close>: the constructors of gocommon/urns;
  \<^item> \<open>language_Parse\<close>: \<open>language.Parse\<close>; \<open>Base_ISO3\<close>: \<open>tag.Base()\<close> followed by
    \<open>ISO3()\<close>;
  \<^item> \<open>NameFromFirstLastUsername\<close>: of package handlers;
  \<^item> \<open>MsgID_String\<close>: \<open>MsgID.String()\<close>.
\<close>

record env =
  json_Marshal :: "dataPayload \<Rightarrow> error + string"
  http_NewRequest :: "string \<Rightarrow> string \<Rightarrow> string \<Rightarrow> error + Request"
  MakeHTTPRequest :: "Request \<Rightarrow> RequestResponse \<times> error option"
  NewURNFromParts :: "string \<Rightarrow> string \<Rightarrow> string \<Rightarrow> string \<Rightarrow> error + URN"
  NewWhatsAppURN :: "string \<Rightarrow> error + URN"
  language_Parse :: "string \<Rightarrow> error + string"
  Base_ISO3 :: "string \<Rightarrow> string"
  NameFromFirstLastUsername :: "string \<Rightarrow> string \<Rightarrow> string \<Rightarrow> string"
  MsgID_String :: "MsgID \<Rightarrow> string"

subsection \<open>Sending\<close>

text \<open>
  \<open>Header.Set\<close> on the request. The network is the list of the requests issued so far:
  \<open>MakeHTTPRequest\<close> appends to it.
\<close>

definition Header_Set :: "string \<Rightarrow> string \<Rightarrow> Request \<Rightarrow> Request" where
  "Header_Set k v req = req\<lparr>Header := filter (\<lambda>kv. fst kv \<noteq> k) (Header req) @ [(k, v)]\<rparr>"

text \<open>
  \<open>sendMsgPart\<close>: the error of \<open>http.NewRequest\<close> is discarded, and setting a header on
  the nil request it leaves panics. The error of the transport goes into the log; the
  function returns no error after the request was made.
\<close>

definition sendMsgPart ::
  "env \<Rightarrow> Msg \<Rightarrow> string \<Rightarrow> dataPayload \<Rightarrow> Request list \<Rightarrow>
     (string \<times> ChannelLog \<times> error option) result \<times> Request list" where
  "sendMsgPart e msg apiURL payload net =
     (case json_Marshal e payload of
        Inl err \<Rightarrow> (Returns ('''', NewChannelLog ''unable to build JSON body'' (Some err), Some err), net)
      | Inr jsonBody \<Rightarrow>
          (case http_NewRequest e ''POST'' apiURL jsonBody of
             Inl _ \<Rightarrow> (Panics ''nil pointer dereference'', net)
           | Inr req0 \<Rightarrow>
               (let req = Header_Set ''Accept'' ''application/json''
                            (Header_Set ''Content-Type'' ''application/json'' req0);
                    (rr, err) = MakeHTTPRequest e req;
                    log = WithError ''Message Send Error'' err (NewChannelLogFromRR ''Message Sent'' rr)
                in (Returns ('''', log, None), net @ [req]))))"

text \<open>The payload that \<open>SendMsg\<close> builds before it sends (lines 198 to 218).\<close>

definition SendMsg_data :: "env \<Rightarrow> Msg \<Rightarrow> dataPayload" where
  "SendMsg_data e msg =
     (let address = Address (Msg.Channel msg);
          data = \<lparr>dataPayload.ID = MsgID_String e (Msg.ID msg),
                  dataPayload.Text = Msg.Text msg,
                  To = Path (Msg.URN msg),
                  ToNoPlus = strings_Replace (Path (Msg.URN msg)) ''+'' '''' 1,
                  From = address,
                  FromNoPlus = strings_Replace address ''+'' '''' 1,
                  dataPayload.Channel = strings_Replace address ''+'' '''' 1,
                  Metadata = [],
                  dataPayload.Attachments = []\<rparr>;
          data = (if length (QuickReplies msg) > 0
                  then data\<lparr>Metadata := [(''quick_replies'', QuickReplies msg)]\<rparr> else data);
          data = (if length (Msg.Attachments msg) > 0
                  then data\<lparr>dataPayload.Attachments := Msg.Attachments msg\<rparr> else data)
      in data)"

definition SendMsg ::
  "env \<Rightarrow> Msg \<Rightarrow> Request list \<Rightarrow> (MsgStatus \<times> error option) result \<times> Request list" where
  "SendMsg e msg net =
     (let address = Address (Msg.Channel msg);
          data = SendMsg_data e msg;
          status = NewMsgStatusForID (Msg.Channel msg) (Msg.ID msg) MsgErrored;
          hasError = True
      in if Msg.Text msg \<noteq> ''''
         then (case sendMsgPart e msg address data net of
                 (Panics p, net') \<Rightarrow> (Panics p, net')
               | (Returns (externalID, log, err), net') \<Rightarrow>
                   (let status = status\<lparr>MsgStatus.ExternalID := externalID\<rparr>;
                        hasError = (err \<noteq> None);
                        status = status\<lparr>Logs := Logs status @ [log]\<rparr>;
                        status = (if \<not> hasError then status\<lparr>MsgStatus.Status := MsgWired\<rparr> else status)
                    in (Returns (status, None), net')))
         else (let status = (if \<not> hasError then status\<lparr>MsgStatus.Status := MsgWired\<rparr> else status)
               in (Returns (status, None), net)))"

subsection \<open>The backend and the responses\<close>

text \<open>
  The operations of \<open>h.Backend()\<close> that read or write the host's stores, over a backend
  state \<open>'s\<close> of any type: each takes the state and returns the new one with its result.
  \<open>WriteExternalIDSeen\<close> returns nothing.
\<close>

record 's Backend =
  GetContact :: "Channel \<Rightarrow> URN \<Rightarrow> 's \<Rightarrow> (error + Contact) \<times> 's"
  AddLanguageToContact :: "Channel \<Rightarrow> string \<Rightarrow> Contact \<Rightarrow> 's \<Rightarrow> error option \<times> 's"
  CheckExternalIDSeen :: "Msg \<Rightarrow> 's \<Rightarrow> Msg \<times> 's"
  WriteMsg :: "Msg \<Rightarrow> 's \<Rightarrow> error option \<times> 's"
  WriteExternalIDSeen :: "Msg \<Rightarrow> 's \<Rightarrow> 's"
  WriteMsgStatus :: "MsgStatus \<Rightarrow> 's \<Rightarrow> error option \<times> 's"

text \<open>
  Modelled from the spec: the constructor and the setters of an incoming message, which
  the backend implements outside this file (section 4.2: "Construct the canonical inbound
  event, attach external_id and attachment if present"). A new message has no
  attachment; \<open>WithAttachment\<close> adds one to the message it is called on.
\<close>

definition NewIncomingMsg :: "Channel \<Rightarrow> URN \<Rightarrow> string \<Rightarrow> Msg" where
  "NewIncomingMsg channel urn text =
     \<lparr>Msg.Channel = channel, Msg.ID = 0, Msg.URN = urn, Msg.Text = text, Msg.Attachments = [],
      QuickReplies = [], Msg.ExternalID = '''', ReceivedOn = 0, ContactName = '''',
      AlreadySeen = False\<rparr>"

definition WithExternalID :: "string \<Rightarrow> Msg \<Rightarrow> Msg" where
  "WithExternalID externalID m = m\<lparr>Msg.ExternalID := externalID\<rparr>"

definition WithReceivedOn :: "int \<Rightarrow> Msg \<Rightarrow> Msg" where
  "WithReceivedOn date m = m\<lparr>ReceivedOn := date\<rparr>"

definition WithContactName :: "string \<Rightarrow> Msg \<Rightarrow> Msg" where
  "WithContactName name m = m\<lparr>ContactName := name\<rparr>"

definition WithAttachment :: "string \<Rightarrow> Msg \<Rightarrow> Msg" where
  "WithAttachment url m = m\<lparr>Msg.Attachments := Msg.Attachments m @ [url]\<rparr>"

text \<open>The values of the interface \<open>courier.Event\<close>, and the items of a response's data.\<close>

datatype Event = MsgEvent Msg | StatusEvent MsgStatus

datatype data =
    NewEventRegisteredContactData string
  | NewMsgReceiveData Msg
  | NewInfoData string
  | NewStatusData MsgStatus

text \<open>
  How a handler function ends. It returns \<open>([]Event, error)\<close> and may have written a
  response to the \<open>http.ResponseWriter\<close> first:
  \<^item> \<open>WriteAndLogRequestError err\<close>: \<open>return nil, handlers.WriteAndLogRequestError(.., err)\<close>,
    the error response of the host;
  \<^item> \<open>WriteAndLogRequestIgnored details\<close>: \<open>return nil, handlers.WriteAndLogRequestIgnored(..)\<close>,
    the "ignored" response;
  \<^item> \<open>WriteDataResponse events statusCode msg data\<close>:
    \<open>return events, WriteDataResponse(ctx, w, statusCode, msg, data)\<close>;
  \<^item> \<open>ReturnError err\<close>: \<open>return nil, err\<close>, with nothing written by the handler;
  \<^item> \<open>Panic\<close>: the function panics.
\<close>

datatype outcome =
    WriteAndLogRequestError error
  | WriteAndLogRequestIgnored string
  | WriteDataResponse "Event list" nat string "data list"
  | ReturnError error
  | Panic string

subsection \<open>Registration\<close>

text \<open>
  \<open>registerUser\<close>. The request is given by what \<open>DecodeAndValidateJSON\<close> makes of it: an
  error, or the decoded \<open>userPayload\<close>. \<open>channel.Schemes()[0]\<close> panics on a channel
  without schemes, \<open>language.MustParse\<close> panics when \<open>language.Parse\<close> fails.
\<close>

definition registerUser ::
  "env \<Rightarrow> 's Backend \<Rightarrow> Channel \<Rightarrow> error + userPayload \<Rightarrow> 's \<Rightarrow> outcome \<times> 's" where
  "registerUser e b channel r s =
     (case r of
        Inl err \<Rightarrow> (WriteAndLogRequestError err, s)
      | Inr payload \<Rightarrow>
          if userPayload.URN payload = ''''
          then (WriteAndLogRequestIgnored ''Ignoring request, no identifier'', s)
          else
            (case Schemes channel of
               [] \<Rightarrow> (Panic ''index out of range'', s)
             | scheme # _ \<Rightarrow>
                 (case NewURNFromParts e scheme (userPayload.URN payload) '''' '''' of
                    Inl errURN \<Rightarrow> (WriteAndLogRequestError errURN, s)
                  | Inr urn \<Rightarrow>
                      (case GetContact b channel urn s of
                         (Inl errGetContact, s1) \<Rightarrow> (WriteAndLogRequestError errGetContact, s1)
                       | (Inr contact, s1) \<Rightarrow>
                           (case language_Parse e (Language payload) of
                              Inl _ \<Rightarrow> (Panic ''language.MustParse'', s1)
                            | Inr tag \<Rightarrow>
                                (case AddLanguageToContact b channel (Base_ISO3 e tag) contact s1 of
                                   (Some errLang, s2) \<Rightarrow> (WriteAndLogRequestError errLang, s2)
                                 | (None, s2) \<Rightarrow>
                                     (WriteDataResponse [] 200 ''Events Handled''
                                        [NewEventRegisteredContactData (UUID contact)], s2)))))))"

subsection \<open>Receiving\<close>

text \<open>
  The message that one iteration of the loop over \<open>payload.Messages\<close> builds for an
  entry, once the sender's URN is there (lines 103, 113 to 125): the name, the text
  (the caption for an image, the body otherwise) and the chain of setters on
  \<open>NewIncomingMsg\<close>.
\<close>

definition receiveMessage_ev :: "env \<Rightarrow> Channel \<Rightarrow> URN \<Rightarrow> moMessage \<Rightarrow> Msg" where
  "receiveMessage_ev e channel urn message =
     (let date = Time message;
          name = NameFromFirstLastUsername e (SenderName message) '''' '''';
          text = Body message;
          text = (if Type message = ''image'' then Caption message else text)
      in WithContactName name (WithReceivedOn date
           (WithExternalID (moMessage.ID message) (NewIncomingMsg channel urn text))))"

text \<open>
  One iteration of the loop over \<open>payload.Messages\<close> (lines 99 to 141): \<open>Inl\<close> when the
  handler returns from inside the loop, \<open>Inr None\<close> for an entry that is skipped,
  \<open>Inr (Some event)\<close> for an entry whose event is written. The attachment is added
  to the message that \<open>CheckExternalIDSeen\<close> returned.
\<close>

definition receiveMessage_message ::
  "env \<Rightarrow> 's Backend \<Rightarrow> Channel \<Rightarrow> moMessage \<Rightarrow> 's \<Rightarrow> (outcome + Msg option) \<times> 's" where
  "receiveMessage_message e b channel message s =
     (if FromMe message = False
      then
        (let author = Author message;
             contactPhoneNumber = strings_Replace author ''@c.us'' '''' 1
         in case NewWhatsAppURN e contactPhoneNumber of
              Inl errURN \<Rightarrow> (Inl (WriteAndLogRequestError errURN), s)
            | Inr urn \<Rightarrow>
                (let isAttachment = False;
                     isAttachment = (if Type message = ''image'' then True else isAttachment);
                     ev = receiveMessage_ev e channel urn message;
                     (event, s1) = CheckExternalIDSeen b ev s;
                     event = (if isAttachment then WithAttachment (Body message) event else event);
                     (errMsg, s2) = WriteMsg b event s1
                 in case errMsg of
                      Some err \<Rightarrow> (Inl (ReturnError err), s2)
                    | None \<Rightarrow> (Inr (Some event), WriteExternalIDSeen b event s2)))
      else (Inr None, s))"

fun receiveMessage_messages ::
  "env \<Rightarrow> 's Backend \<Rightarrow> Channel \<Rightarrow> moMessage list \<Rightarrow> Event list \<Rightarrow> data list \<Rightarrow> 's \<Rightarrow>
     (outcome + Event list \<times> data list) \<times> 's" where
  "receiveMessage_messages e b channel [] events data s = (Inr (events, data), s)"
| "receiveMessage_messages e b channel (message # rest) events data s =
     (case receiveMessage_message e b channel message s of
        (Inl out, s') \<Rightarrow> (Inl out, s')
      | (Inr None, s') \<Rightarrow> receiveMessage_messages e b channel rest events data s'
      | (Inr (Some event), s') \<Rightarrow>
          receiveMessage_messages e b channel rest
            (events @ [MsgEvent event]) (data @ [NewMsgReceiveData event]) s')"

text \<open>
  One iteration of the loop over \<open>payload.Ack\<close> (lines 145 to 168): \<open>Inl\<close> when the handler
  returns the error of the status write, otherwise the event to append (none after
  \<open>continue\<close>) and the item for the response.
\<close>

definition receiveMessage_ack ::
  "'s Backend \<Rightarrow> Channel \<Rightarrow> moAck \<Rightarrow> 's \<Rightarrow> (error + Event option \<times> data) \<times> 's" where
  "receiveMessage_ack b channel ack s =
     (let status = MsgQueued;
          status = (if moAck.Status ack = ''sent'' then MsgSent
                    else if moAck.Status ack = ''delivered'' then MsgDelivered
                    else status);
          event = NewMsgStatusForExternalID channel (moAck.ID ack) status;
          (err, s1) = WriteMsgStatus b event s
      in if err = Some ErrMsgNotFound
         then (Inr (None, NewInfoData ''message not found, ignored''), s1)
         else (case err of
                 Some err' \<Rightarrow> (Inl err', s1)
               | None \<Rightarrow> (Inr (Some (StatusEvent event), NewStatusData event), s1)))"

fun receiveMessage_acks ::
  "'s Backend \<Rightarrow> Channel \<Rightarrow> moAck list \<Rightarrow> Event list \<Rightarrow> data list \<Rightarrow> 's \<Rightarrow>
     (error + Event list \<times> data list) \<times> 's" where
  "receiveMessage_acks b channel [] events data s = (Inr (events, data), s)"
| "receiveMessage_acks b channel (ack # rest) events data s =
     (case receiveMessage_ack b channel ack s of
        (Inl err, s') \<Rightarrow> (Inl err, s')
      | (Inr (None, item), s') \<Rightarrow> receiveMessage_acks b channel rest events (data @ [item]) s'
      | (Inr (Some event, item), s') \<Rightarrow>
          receiveMessage_acks b channel rest (events @ [event]) (data @ [item]) s')"

text \<open>
  \<open>receiveMessage\<close>. The request is given by what \<open>DecodeAndValidateJSON\<close> makes of it: an
  error, or the decoded \<open>moPayload\<close>.
\<close>

definition receiveMessage ::
  "env \<Rightarrow> 's Backend \<Rightarrow> Channel \<Rightarrow> error + moPayload \<Rightarrow> 's \<Rightarrow> outcome \<times> 's" where
  "receiveMessage e b channel r s =
     (case r of
        Inl err \<Rightarrow> (WriteAndLogRequestError err, s)
      | Inr payload \<Rightarrow>
          if InstanceID payload = ''''
          then (WriteAndLogRequestIgnored ''Ignoring request, no message'', s)
          else
            (case receiveMessage_messages e b channel (Messages payload) [] [] s of
               (Inl out, s1) \<Rightarrow> (out, s1)
             | (Inr (events, data), s1) \<Rightarrow>
                 (case receiveMessage_acks b channel (Ack payload) events data s1 of
                    (Inl err, s2) \<Rightarrow> (ReturnError err, s2)
                  | (Inr (events, data), s2) \<Rightarrow>
                      (WriteDataResponse events 200 ''Events Handled'' data, s2))))"

subsection \<open>Recording the backend calls\<close>

text \<open>
  \<open>recording b\<close> is the backend \<open>b\<close> with a log: each operation does what it does in
  \<open>b\<close> and appends its call to the list beside the state. The handler makes a backend
  call exactly when the list grows.
\<close>

datatype call =
    Call_GetContact Channel URN
  | Call_AddLanguageToContact Channel string Contact
  | Call_CheckExternalIDSeen Msg
  | Call_WriteMsg Msg
  | Call_WriteExternalIDSeen Msg
  | Call_WriteMsgStatus MsgStatus

definition recording :: "'s Backend \<Rightarrow> ('s \<times> call list) Backend" where
  "recording b =
     \<lparr>GetContact = (\<lambda>channel urn (s, calls).
        (fst (GetContact b channel urn s),
         (snd (GetContact b channel urn s), calls @ [Call_GetContact channel urn]))),
      AddLanguageToContact = (\<lambda>channel lang contact (s, calls).
        (fst (AddLanguageToContact b channel lang contact s),
         (snd (AddLanguageToContact b channel lang contact s),
          calls @ [Call_AddLanguageToContact channel lang contact]))),
      CheckExternalIDSeen = (\<lambda>m (s, calls).
        (fst (CheckExternalIDSeen b m s),
         (snd (CheckExternalIDSeen b m s), calls @ [Call_CheckExternalIDSeen m]))),
      WriteMsg = (\<lambda>m (s, calls).
        (fst (WriteMsg b m s), (snd (WriteMsg b m s), calls @ [Call_WriteMsg m]))),
      WriteExternalIDSeen = (\<lambda>m (s, calls).
        (WriteExternalIDSeen b m s, calls @ [Call_WriteExternalIDSeen m])),
      WriteMsgStatus = (\<lambda>st (s, calls).
        (fst (WriteMsgStatus b st s), (snd (WriteMsgStatus b st s), calls @ [Call_WriteMsgStatus st])))\<rparr>"

subsection \<open>A backend after the spec\<close>

text \<open>
  Modelled from the spec: the stores of the host behind the backend interface, which are
  outside this file. Section 4.1: "look up or create the corresponding contact record",
  "attach it to the contact". Section 4.2: "a deduplication check against previously seen
  external_ids", "record the external_id as seen"; section 8: "second submission detected
  as already seen", so that it is not persisted again. Section 3: an acknowledgement
  "maps 1:1 to a previously sent outbound message identified by external_id; unknown
  external_id is a non-fatal not found outcome". \<open>fail\<close> says which messages the store
  fails to persist, and with which error.
\<close>

record store =
  contacts :: "(URN \<times> Contact) list"
  languages :: "(string \<times> string) list"
  seen :: "string list"
  written :: "Msg list"
  outbound :: "string list"
  statuses :: "MsgStatus list"

definition spec_Backend :: "(Msg \<Rightarrow> error option) \<Rightarrow> store Backend" where
  "spec_Backend fail =
     \<lparr>GetContact = (\<lambda>channel urn s.
        case map_of (contacts s) urn of
          Some c \<Rightarrow> (Inr c, s)
        | None \<Rightarrow> (Inr \<lparr>UUID = Path urn\<rparr>, s\<lparr>contacts := contacts s @ [(urn, \<lparr>UUID = Path urn\<rparr>)]\<rparr>)),
      AddLanguageToContact = (\<lambda>channel lang contact s.
        (None, s\<lparr>languages := (UUID contact, lang) # languages s\<rparr>)),
      CheckExternalIDSeen = (\<lambda>m s.
        (if Msg.ExternalID m \<in> set (seen s) then m\<lparr>AlreadySeen := True\<rparr> else m, s)),
      WriteMsg = (\<lambda>m s.
        if AlreadySeen m then (None, s)
        else (case fail m of
                Some err \<Rightarrow> (Some err, s)
              | None \<Rightarrow> (None, s\<lparr>written := written s @ [m]\<rparr>))),
      WriteExternalIDSeen = (\<lambda>m s. s\<lparr>seen := Msg.ExternalID m # seen s\<rparr>),
      WriteMsgStatus = (\<lambda>st s.
        if MsgStatus.ExternalID st \<in> set (outbound s)
        then (None, s\<lparr>statuses := statuses s @ [st]\<rparr>)
        else (Some ErrMsgNotFound, s))\<rparr>"

definition empty_store :: store where
  "empty_store =
     \<lparr>contacts = [], languages = [], seen = [], written = [], outbound = [], statuses = []\<rparr>"

text \<open>
  The number of messages with the external id \<open>x\<close> that the store holds as persisted.
\<close>

definition persisted :: "string \<Rightarrow> store \<Rightarrow> nat" where
  "persisted x s = count_list (map Msg.ExternalID (written s)) x"

subsection \<open>Sample libraries, channel and messages\<close>

text \<open>
  Concrete libraries on which the theorems below are instantiated: JSON that carries the
  text, a transport that answers 200 unless the URL is \<open>http://down\<close>, WhatsApp URNs of
  digits, and a language parser that knows \<open>en\<close> and \<open>pt-BR\<close>.
\<close>

definition sample_env :: env where
  "sample_env =
     \<lparr>json_Marshal = (\<lambda>d. Inr (dataPayload.Text d)),
      http_NewRequest = (\<lambda>m u body. Inr \<lparr>Method = m, URL = u, Header = [], Body = body\<rparr>),
      MakeHTTPRequest = (\<lambda>req.
        if URL req = ''http://down''
        then (\<lparr>StatusCode = 0, Response = ''''\<rparr>, Some (Err ''connection refused''))
        else (\<lparr>StatusCode = 200, Response = ''ok''\<rparr>, None)),
      NewURNFromParts = (\<lambda>scheme path query display.
        if path = '''' then Inl (Err ''invalid path'') else Inr \<lparr>Scheme = scheme, Path = path\<rparr>),
      NewWhatsAppURN = (\<lambda>path.
        if path \<noteq> '''' \<and> list_all (\<lambda>c. c \<in> set ''0123456789'') path
        then Inr \<lparr>Scheme = ''whatsapp'', Path = path\<rparr>
        else Inl (Err ''invalid whatsapp id'')),
      language_Parse = (\<lambda>l.
        if l = ''en'' \<or> l = ''pt-BR'' then Inr l
        else Inl (Err ''language: tag is not well-formed'')),
      Base_ISO3 = (\<lambda>tag. if tag = ''en'' then ''eng'' else ''por''),
      NameFromFirstLastUsername = (\<lambda>first last username.
        if first \<noteq> '''' then first else if last \<noteq> '''' then last else username),
      MsgID_String = (\<lambda>i. if i = 7 then ''7'' else ''0'')\<rparr>"

definition sample_channel :: Channel where
  "sample_channel = \<lparr>Schemes = [''ws''], Address = ''+15551234567''\<rparr>"

definition down_channel :: Channel where
  "down_channel = \<lparr>Schemes = [''ws''], Address = ''http://down''\<rparr>"

definition sample_msg :: "Channel \<Rightarrow> string \<Rightarrow> Msg" where
  "sample_msg channel text =
     \<lparr>Msg.Channel = channel, Msg.ID = 7, Msg.URN = \<lparr>Scheme = ''ws'', Path = ''+15551234567''\<rparr>,
      Msg.Text = text, Msg.Attachments = [], QuickReplies = [], Msg.ExternalID = '''',
      ReceivedOn = 0, ContactName = '''', AlreadySeen = False\<rparr>"

definition sample_message :: "string \<Rightarrow> string \<Rightarrow> bool \<Rightarrow> moMessage" where
  "sample_message externalID type fromMe =
     \<lparr>moMessage.ID = externalID, Body = ''B'', Type = type, Caption = ''C'',
      SenderName = ''Ann'', Author = ''5511988887777@c.us'', FromMe = fromMe, Time = 1600000000\<rparr>"

definition sample_urn :: URN where
  "sample_urn = \<lparr>Scheme = ''whatsapp'', Path = ''5511988887777''\<rparr>"

definition unknown_ack :: moAck where
  "unknown_ack = \<lparr>moAck.ID = ''unknown'', Status = ''sent''\<rparr>"

definition delivered_ack :: moAck where
  "delivered_ack = \<lparr>moAck.ID = ''out1'', Status = ''delivered''\<rparr>"

text \<open>
  A batch of an image, an echo of the account's own message and a chat message, with
  an acknowledgement of an unknown message and one of the outbound message \<open>out1\<close>;
  a store that knows \<open>out1\<close>; and a store that fails to persist the message \<open>m3\<close>.
\<close>

definition sample_payload :: moPayload where
  "sample_payload =
     \<lparr>InstanceID = ''i1'',
      Messages = [sample_message ''m1'' ''image'' False, sample_message ''m2'' ''chat'' True,
                  sample_message ''m3'' ''chat'' False],
      Ack = [unknown_ack, delivered_ack]\<rparr>"

definition sample_store :: store where
  "sample_store = empty_store\<lparr>outbound := [''out1'']\<rparr>"

definition fail_m3 :: "Msg \<Rightarrow> error option" where
  "fail_m3 m = (if Msg.ExternalID m = ''m3'' then Some (Err ''db down'') else None)"

subsection \<open>The spec's wording of the derived addresses\<close>

text \<open>
  The spec's words for the derived address fields, "with a leading + stripped", as a
  function of their own, to be compared with what \<open>SendMsg\<close> computes.
\<close>

definition strip_leading_plus :: "string \<Rightarrow> string" where
  "strip_leading_plus a = (case a of [] \<Rightarrow> [] | c # cs \<Rightarrow> if c = CHR ''+'' then cs else a)"

section \<open>Properties of sending\<close>

lemma strings_Replace_plus: "strings_Replace s ''+'' '''' (Suc 0) = remove1 (CHR ''+'') s"
  by (induction s) simp_all

lemma SendMsg_wired_whatever_the_transport:
  assumes "Msg.Text msg \<noteq> ''''"
    and "json_Marshal e (SendMsg_data e msg) = Inr body"
    and "http_NewRequest e ''POST'' (Address (Msg.Channel msg)) body = Inr req0"
  shows "\<exists>status req. SendMsg e msg net = (Returns (status, None), net @ [req]) \<and>
           MsgStatus.Status status = MsgWired"
  using assms by (simp add: SendMsg_def sendMsgPart_def Let_def split: prod.splits)

text \<open>
  C1. A message with text and no attachment on a channel whose transport fails
  (connection refused): \<open>SendMsg\<close> issues one POST, returns no error, logs the error of
  the transport, and sets the status to wired all the same, because \<open>sendMsgPart\<close>
  returns a nil error after the request. The status does not stay errored.
\<close>

theorem SendMsg_wired_on_transport_failure:
  "snd (MakeHTTPRequest sample_env
          \<lparr>Method = ''POST'', URL = ''http://down'',
           Header = [(''Content-Type'', ''application/json''), (''Accept'', ''application/json'')],
           Body = ''hello''\<rparr>) = Some (Err ''connection refused'') \<and>
   SendMsg sample_env (sample_msg down_channel ''hello'') [] =
     (Returns
        (\<lparr>MsgStatus.Channel = down_channel, MsgStatus.ID = Some 7, MsgStatus.ExternalID = '''',
          MsgStatus.Status = MsgWired,
          Logs = [\<lparr>Description = ''Message Send Error'',
                   RR = Some \<lparr>StatusCode = 0, Response = ''''\<rparr>,
                   Error = Some (Err ''connection refused'')\<rparr>]\<rparr>,
         None),
      [\<lparr>Method = ''POST'', URL = ''http://down'',
        Header = [(''Content-Type'', ''application/json''), (''Accept'', ''application/json'')],
        Body = ''hello''\<rparr>])"
  by (simp add: SendMsg_def sendMsgPart_def SendMsg_data_def Let_def sample_env_def
      sample_msg_def down_channel_def NewMsgStatusForID_def Header_Set_def WithError_def
      NewChannelLogFromRR_def strings_Replace_plus)

text \<open>
  C9, as the code has it. The three derived fields are the address without its first
  \<open>+\<close>, wherever that stands (\<open>strings.Replace\<close> with a count of 1): \<open>ToNoPlus\<close> from the
  recipient's path, \<open>FromNoPlus\<close> and \<open>Channel\<close> from the channel's address. For an
  address that starts with \<open>+\<close> this strips the leading \<open>+\<close>, and \<open>+15551234567\<close> gives
  \<open>15551234567\<close>.
\<close>

theorem SendMsg_data_no_plus:
  "ToNoPlus (SendMsg_data e msg) = remove1 (CHR ''+'') (Path (Msg.URN msg)) \<and>
   FromNoPlus (SendMsg_data e msg) = remove1 (CHR ''+'') (Address (Msg.Channel msg)) \<and>
   dataPayload.Channel (SendMsg_data e msg) = remove1 (CHR ''+'') (Address (Msg.Channel msg)) \<and>
   ToNoPlus (SendMsg_data e (msg\<lparr>Msg.URN := \<lparr>Scheme = sc, Path = CHR ''+'' # rest\<rparr>\<rparr>)) = rest \<and>
   FromNoPlus (SendMsg_data e (msg\<lparr>Msg.Channel := \<lparr>Schemes = ss, Address = CHR ''+'' # rest\<rparr>\<rparr>)) = rest \<and>
   dataPayload.Channel
     (SendMsg_data e (msg\<lparr>Msg.Channel := \<lparr>Schemes = ss, Address = CHR ''+'' # rest\<rparr>\<rparr>)) = rest \<and>
   ToNoPlus (SendMsg_data e (sample_msg sample_channel text)) = ''15551234567'' \<and>
   FromNoPlus (SendMsg_data e (sample_msg sample_channel text)) = ''15551234567'' \<and>
   dataPayload.Channel (SendMsg_data e (sample_msg sample_channel text)) = ''15551234567''"
  by (simp add: SendMsg_data_def Let_def strings_Replace_plus sample_msg_def sample_channel_def)

text \<open>
  C9, as the spec states it, fails on an address whose first \<open>+\<close> is not leading: the
  recipient path \<open>1+5\<close> has no leading \<open>+\<close> to strip, and \<open>ToNoPlus\<close> is \<open>15\<close>.
\<close>

theorem SendMsg_data_no_plus_counterexample:
  "ToNoPlus (SendMsg_data sample_env
      ((sample_msg sample_channel ''hi'')\<lparr>Msg.URN := \<lparr>Scheme = ''ws'', Path = ''1+5''\<rparr>\<rparr>))
   \<noteq> strip_leading_plus ''1+5''"
  by (simp add: SendMsg_data_def Let_def strings_Replace_plus strip_leading_plus_def
      sample_msg_def)

text \<open>
  C10. A message whose text is empty: \<open>SendMsg\<close> issues no HTTP request (the network is
  unchanged), returns the status it created, still errored and without a log, and a nil
  error. The attachments and the quick replies are in the payload that was built, and
  are not sent.
\<close>

theorem SendMsg_empty_text:
  assumes "Msg.Text msg = ''''"
  shows "SendMsg e msg net =
           (Returns (NewMsgStatusForID (Msg.Channel msg) (Msg.ID msg) MsgErrored, None), net) \<and>
         MsgStatus.Status (NewMsgStatusForID (Msg.Channel msg) (Msg.ID msg) MsgErrored) = MsgErrored \<and>
         dataPayload.Attachments (SendMsg_data e msg) = Msg.Attachments msg \<and>
         Metadata (SendMsg_data e msg) =
           (if QuickReplies msg = [] then [] else [(''quick_replies'', QuickReplies msg)])"
  using assms by (simp add: SendMsg_def SendMsg_data_def Let_def NewMsgStatusForID_def)

theorem SendMsg_empty_text_witness:
  "Msg.Text ((sample_msg sample_channel '''')\<lparr>Msg.Attachments := [''image/png:http://x/a.png'']\<rparr>) = '''' \<and>
   SendMsg sample_env
     ((sample_msg sample_channel '''')\<lparr>Msg.Attachments := [''image/png:http://x/a.png'']\<rparr>) [] =
     (Returns
        (\<lparr>MsgStatus.Channel = sample_channel, MsgStatus.ID = Some 7, MsgStatus.ExternalID = '''',
          MsgStatus.Status = MsgErrored, Logs = []\<rparr>, None), []) \<and>
   dataPayload.Attachments (SendMsg_data sample_env
     ((sample_msg sample_channel '''')\<lparr>Msg.Attachments := [''image/png:http://x/a.png'']\<rparr>)) =
     [''image/png:http://x/a.png'']"
  using SendMsg_empty_text
    [of "(sample_msg sample_channel '''')\<lparr>Msg.Attachments := [''image/png:http://x/a.png'']\<rparr>"
        sample_env "[]"]
  by (simp add: sample_msg_def NewMsgStatusForID_def)

section \<open>Properties of registration\<close>

lemma recording_simps:
  "GetContact (recording b) channel urn (s, calls) =
     (fst (GetContact b channel urn s),
      (snd (GetContact b channel urn s), calls @ [Call_GetContact channel urn]))"
  "AddLanguageToContact (recording b) channel lang contact (s, calls) =
     (fst (AddLanguageToContact b channel lang contact s),
      (snd (AddLanguageToContact b channel lang contact s),
       calls @ [Call_AddLanguageToContact channel lang contact]))"
  "CheckExternalIDSeen (recording b) m (s, calls) =
     (fst (CheckExternalIDSeen b m s),
      (snd (CheckExternalIDSeen b m s), calls @ [Call_CheckExternalIDSeen m]))"
  "WriteMsg (recording b) m (s, calls) =
     (fst (WriteMsg b m s), (snd (WriteMsg b m s), calls @ [Call_WriteMsg m]))"
  "WriteExternalIDSeen (recording b) m (s, calls) =
     (WriteExternalIDSeen b m s, calls @ [Call_WriteExternalIDSeen m])"
  "WriteMsgStatus (recording b) st (s, calls) =
     (fst (WriteMsgStatus b st s),
      (snd (WriteMsgStatus b st s), calls @ [Call_WriteMsgStatus st]))"
  by (simp_all add: recording_def)

text \<open>
  Whatever the backend and the libraries: once the identifier is there, the channel has
  a scheme, the URN is built and the contact is found, a language that
  \<open>language.Parse\<close> rejects makes \<open>registerUser\<close> panic, with the state the contact
  lookup left.
\<close>

lemma registerUser_malformed_language:
  assumes "userPayload.URN payload \<noteq> ''''"
    and "Schemes channel = scheme # schemes"
    and "NewURNFromParts e scheme (userPayload.URN payload) '''' '''' = Inr urn"
    and "GetContact b channel urn s = (Inr contact, s1)"
    and "language_Parse e (Language payload) = Inl err"
  shows "registerUser e b channel (Inr payload) s = (Panic ''language.MustParse'', s1)"
  using assms by (simp add: registerUser_def)

text \<open>
  C2. The request \<open>{urn: "123", language: "not a tag"}\<close>, whose language the parser
  rejects: \<open>registerUser\<close> writes no error response. It panics in \<open>language.MustParse\<close>,
  after the one backend call that looked the contact up (and created it).
\<close>

theorem registerUser_panics_on_malformed_language:
  "language_Parse sample_env ''not a tag'' = Inl (Err ''language: tag is not well-formed'') \<and>
   registerUser sample_env (recording (spec_Backend (\<lambda>m. None))) sample_channel
     (Inr \<lparr>userPayload.URN = ''123'', Language = ''not a tag''\<rparr>) (empty_store, []) =
     (Panic ''language.MustParse'',
      (empty_store\<lparr>contacts := [(\<lparr>Scheme = ''ws'', Path = ''123''\<rparr>, \<lparr>UUID = ''123''\<rparr>)]\<rparr>,
       [Call_GetContact sample_channel \<lparr>Scheme = ''ws'', Path = ''123''\<rparr>]))"
  by (simp add: registerUser_def sample_env_def sample_channel_def recording_simps
      spec_Backend_def empty_store_def)

text \<open>
  C3. A registration request whose \<open>urn\<close> is the empty string: the outcome is the
  "ignored" response, not an error, and the backend is left as it was, with no call
  recorded (neither \<open>GetContact\<close> nor \<open>AddLanguageToContact\<close>), for every backend.
\<close>

theorem registerUser_empty_urn:
  assumes "userPayload.URN payload = ''''"
  shows "registerUser e (recording b) channel (Inr payload) (s, calls) =
           (WriteAndLogRequestIgnored ''Ignoring request, no identifier'', (s, calls))"
  using assms by (simp add: registerUser_def)

theorem registerUser_empty_urn_witness:
  "userPayload.URN \<lparr>userPayload.URN = '''', Language = ''en''\<rparr> = '''' \<and>
   registerUser sample_env (recording (spec_Backend (\<lambda>m. None))) sample_channel
     (Inr \<lparr>userPayload.URN = '''', Language = ''en''\<rparr>) (empty_store, []) =
     (WriteAndLogRequestIgnored ''Ignoring request, no identifier'', (empty_store, []))"
  using registerUser_empty_urn [of "\<lparr>userPayload.URN = '''', Language = ''en''\<rparr>" sample_env
      "spec_Backend (\<lambda>m. None)" sample_channel empty_store "[]"]
  by simp

section \<open>Properties of receiving\<close>

subsection \<open>The two loops\<close>

lemma receiveMessage_message_FromMe:
  "FromMe message \<Longrightarrow> receiveMessage_message e b channel message s = (Inr None, s)"
  by (simp add: receiveMessage_message_def)

lemma receiveMessage_messages_append:
  "receiveMessage_messages e b channel (before @ after) events data s =
     (case receiveMessage_messages e b channel before events data s of
        (Inl out, s') \<Rightarrow> (Inl out, s')
      | (Inr (events', data'), s') \<Rightarrow> receiveMessage_messages e b channel after events' data' s')"
  by (induction before arbitrary: events data s)
     (simp_all split: prod.splits sum.splits option.splits)

lemma receiveMessage_acks_append:
  "receiveMessage_acks b channel (before @ after) events data s =
     (case receiveMessage_acks b channel before events data s of
        (Inl err, s') \<Rightarrow> (Inl err, s')
      | (Inr (events', data'), s') \<Rightarrow> receiveMessage_acks b channel after events' data' s')"
  by (induction before arbitrary: events data s)
     (simp_all split: prod.splits sum.splits option.splits)

lemma receiveMessage_messages_filter:
  "receiveMessage_messages e b channel (filter (\<lambda>m. \<not> FromMe m) messages) events data s =
   receiveMessage_messages e b channel messages events data s"
  by (induction messages arbitrary: events data s)
     (auto simp: receiveMessage_message_FromMe split: prod.splits sum.splits option.splits)

lemma receiveMessage_messages_skip:
  "receiveMessage_messages e b channel (before @ message\<lparr>FromMe := True\<rparr> # after) events data s =
   receiveMessage_messages e b channel (before @ after) events data s"
  by (simp add: receiveMessage_messages_append receiveMessage_message_FromMe
      split: prod.splits sum.splits)

lemma receiveMessage_message_write_fails:
  assumes "FromMe message = False"
    and "NewWhatsAppURN e (strings_Replace (Author message) ''@c.us'' '''' 1) = Inr urn"
    and "CheckExternalIDSeen b (receiveMessage_ev e channel urn message) s = (checked, s1)"
    and "WriteMsg b (if Type message = ''image'' then WithAttachment (Body message) checked
                     else checked) s1 = (Some err, s2)"
  shows "receiveMessage_message e b channel message s = (Inl (ReturnError err), s2)"
  using assms by (cases "Type message = ''image''") (simp_all add: receiveMessage_message_def Let_def)

lemma receiveMessage_message_written:
  assumes "FromMe message = False"
    and "NewWhatsAppURN e (strings_Replace (Author message) ''@c.us'' '''' 1) = Inr urn"
    and "CheckExternalIDSeen b (receiveMessage_ev e channel urn message) s = (checked, s1)"
    and "WriteMsg b (if Type message = ''image'' then WithAttachment (Body message) checked
                     else checked) s1 = (None, s2)"
  shows "receiveMessage_message e b channel message s =
           (Inr (Some (if Type message = ''image'' then WithAttachment (Body message) checked
                       else checked)),
            WriteExternalIDSeen b
              (if Type message = ''image'' then WithAttachment (Body message) checked else checked) s2)"
  using assms by (cases "Type message = ''image''") (simp_all add: receiveMessage_message_def Let_def)

lemma receiveMessage_message_Inl:
  assumes "receiveMessage_message e b channel message s = (Inl out, s')"
  shows "\<exists>err. out = WriteAndLogRequestError err \<or> out = ReturnError err"
  using assms
  by (auto simp: receiveMessage_message_def Let_def split_beta
      split: if_splits sum.splits option.splits)

lemma receiveMessage_messages_Inl:
  assumes "receiveMessage_messages e b channel messages events data s = (Inl out, s')"
  shows "\<exists>err. out = WriteAndLogRequestError err \<or> out = ReturnError err"
  using assms
proof (induction messages arbitrary: events data s)
  case Nil
  then show ?case by simp
next
  case (Cons message rest)
  then show ?case
    by (auto split: prod.splits sum.splits option.splits dest: receiveMessage_message_Inl)
qed

subsection \<open>The spec's backend and the samples, evaluated\<close>

lemma spec_Backend_simps:
  "CheckExternalIDSeen (spec_Backend fail) m s =
     (if Msg.ExternalID m \<in> set (seen s) then m\<lparr>AlreadySeen := True\<rparr> else m, s)"
  "WriteMsg (spec_Backend fail) m s =
     (if AlreadySeen m then (None, s)
      else (case fail m of
              Some err \<Rightarrow> (Some err, s)
            | None \<Rightarrow> (None, s\<lparr>written := written s @ [m]\<rparr>)))"
  "WriteExternalIDSeen (spec_Backend fail) m s = s\<lparr>seen := Msg.ExternalID m # seen s\<rparr>"
  "WriteMsgStatus (spec_Backend fail) st s =
     (if MsgStatus.ExternalID st \<in> set (outbound s)
      then (None, s\<lparr>statuses := statuses s @ [st]\<rparr>)
      else (Some ErrMsgNotFound, s))"
  by (simp_all add: spec_Backend_def)

lemmas sample_defs = sample_env_def sample_channel_def sample_message_def sample_payload_def
  sample_store_def empty_store_def sample_urn_def unknown_ack_def delivered_ack_def fail_m3_def

lemma sample_urns:
  "NewWhatsAppURN sample_env (strings_Replace (Author (sample_message i t f)) ''@c.us'' '''' 1) =
     Inr sample_urn"
  by (simp add: sample_defs)

subsection \<open>Entries of the account's own\<close>

text \<open>
  C4. An entry with \<open>fromMe = true\<close> produces nothing: the handler's result and the
  backend's state are those of the batch without the entry, wherever the entry stands,
  so the entries around it are processed as they would be without it; a batch gives
  what its entries with \<open>fromMe = false\<close> give; and the iteration for such an entry
  makes no backend call (no message is built, checked or written) and yields no event.
\<close>

theorem receiveMessage_skips_fromMe:
  "receiveMessage e b channel
     (Inr (payload\<lparr>Messages := before @ message\<lparr>FromMe := True\<rparr> # after\<rparr>)) s =
   receiveMessage e b channel (Inr (payload\<lparr>Messages := before @ after\<rparr>)) s \<and>
   receiveMessage e b channel
     (Inr (payload\<lparr>Messages := filter (\<lambda>m. \<not> FromMe m) (Messages payload)\<rparr>)) s =
   receiveMessage e b channel (Inr payload) s \<and>
   receiveMessage_message e (recording b) channel (message\<lparr>FromMe := True\<rparr>) (s, calls) =
     (Inr None, (s, calls))"
proof -
  have "receiveMessage e b channel
          (Inr (payload\<lparr>Messages := before @ message\<lparr>FromMe := True\<rparr> # after\<rparr>)) s =
        receiveMessage e b channel (Inr (payload\<lparr>Messages := before @ after\<rparr>)) s"
    by (simp add: receiveMessage_def receiveMessage_messages_skip split: prod.splits sum.splits)
  moreover have "receiveMessage e b channel
          (Inr (payload\<lparr>Messages := filter (\<lambda>m. \<not> FromMe m) (Messages payload)\<rparr>)) s =
        receiveMessage e b channel (Inr payload) s"
    by (simp add: receiveMessage_def receiveMessage_messages_filter split: prod.splits sum.splits)
  moreover have "receiveMessage_message e (recording b) channel (message\<lparr>FromMe := True\<rparr>)
          (s, calls) = (Inr None, (s, calls))"
    by (simp add: receiveMessage_message_FromMe)
  ultimately show ?thesis by blast
qed

subsection \<open>Text and attachment of an incoming event\<close>

lemma receiveMessage_ev_fields:
  "Msg.Text (receiveMessage_ev e channel urn message) =
     (if Type message = ''image'' then Caption message else Body message)"
  "Msg.Attachments (receiveMessage_ev e channel urn message) = []"
  "Msg.ExternalID (receiveMessage_ev e channel urn message) = moMessage.ID message"
  "AlreadySeen (receiveMessage_ev e channel urn message) = False"
  by (simp_all add: receiveMessage_ev_def Let_def WithContactName_def WithReceivedOn_def
      WithExternalID_def NewIncomingMsg_def)

lemma receiveMessage_message_event:
  assumes "\<And>m t. Msg.Text (fst (CheckExternalIDSeen b m t)) = Msg.Text m"
    and "\<And>m t. Msg.Attachments (fst (CheckExternalIDSeen b m t)) = Msg.Attachments m"
    and "receiveMessage_message e b channel message s = (Inr (Some event), s')"
  shows "\<not> FromMe message \<and>
         Msg.Text event = (if Type message = ''image'' then Caption message else Body message) \<and>
         Msg.Attachments event = (if Type message = ''image'' then [Body message] else [])"
  using assms(3)
  by (auto simp: receiveMessage_message_def Let_def split_beta WithAttachment_def
      receiveMessage_ev_fields assms(1,2) split: if_splits sum.splits option.splits)

lemma receiveMessage_messages_events:
  assumes "\<And>m t. Msg.Text (fst (CheckExternalIDSeen b m t)) = Msg.Text m"
    and "\<And>m t. Msg.Attachments (fst (CheckExternalIDSeen b m t)) = Msg.Attachments m"
    and "receiveMessage_messages e b channel messages events data s = (Inr (events', data'), s')"
  shows "\<exists>msgs. events' = events @ map MsgEvent msgs \<and>
           data' = data @ map NewMsgReceiveData msgs \<and>
           map Msg.Text msgs =
             map (\<lambda>m. if Type m = ''image'' then Caption m else Body m)
               (filter (\<lambda>m. \<not> FromMe m) messages) \<and>
           map Msg.Attachments msgs =
             map (\<lambda>m. if Type m = ''image'' then [Body m] else [])
               (filter (\<lambda>m. \<not> FromMe m) messages)"
  using assms(3)
proof (induction messages arbitrary: events data s)
  case Nil
  then show ?case by simp
next
  case (Cons message rest)
  obtain r s1 where step: "receiveMessage_message e b channel message s = (r, s1)"
    by (cases "receiveMessage_message e b channel message s")
  show ?case
  proof (cases r)
    case (Inl out)
    with Cons.prems step show ?thesis by simp
  next
    case (Inr produced)
    show ?thesis
    proof (cases produced)
      case None
      with Inr step have skipped: "FromMe message"
        by (auto simp: receiveMessage_message_def Let_def
            split: if_splits sum.splits prod.splits option.splits)
      from None Inr step Cons.prems
      have "receiveMessage_messages e b channel rest events data s1 = (Inr (events', data'), s')"
        by simp
      from Cons.IH [OF this] skipped show ?thesis by simp
    next
      case (Some event)
      from Some Inr step Cons.prems
      have "receiveMessage_messages e b channel rest (events @ [MsgEvent event])
              (data @ [NewMsgReceiveData event]) s1 = (Inr (events', data'), s')"
        by simp
      from Cons.IH [OF this] obtain msgs where
        msgs: "events' = (events @ [MsgEvent event]) @ map MsgEvent msgs"
          "data' = (data @ [NewMsgReceiveData event]) @ map NewMsgReceiveData msgs"
          "map Msg.Text msgs =
             map (\<lambda>m. if Type m = ''image'' then Caption m else Body m)
               (filter (\<lambda>m. \<not> FromMe m) rest)"
          "map Msg.Attachments msgs =
             map (\<lambda>m. if Type m = ''image'' then [Body m] else [])
               (filter (\<lambda>m. \<not> FromMe m) rest)"
        by blast
      from receiveMessage_message_event [OF assms(1,2)] step Inr Some
      have ev: "\<not> FromMe message"
        "Msg.Text event = (if Type message = ''image'' then Caption message else Body message)"
        "Msg.Attachments event = (if Type message = ''image'' then [Body message] else [])"
        by blast+
      show ?thesis
        by (rule exI [of _ "event # msgs"]) (simp add: msgs ev)
    qed
  qed
qed

lemma receiveMessage_acks_events:
  assumes "receiveMessage_acks b channel acks events data s = (Inr (events', data'), s')"
  shows "\<exists>sts. events' = events @ map StatusEvent sts"
  using assms
proof (induction acks arbitrary: events data s)
  case Nil
  then show ?case by simp
next
  case (Cons ack rest)
  obtain r s1 where step: "receiveMessage_ack b channel ack s = (r, s1)"
    by (cases "receiveMessage_ack b channel ack s")
  show ?case
  proof (cases r)
    case (Inl err)
    with Cons.prems step show ?thesis by simp
  next
    case (Inr produced)
    obtain ev item where produced: "produced = (ev, item)" by (cases produced)
    show ?thesis
    proof (cases ev)
      case None
      with Inr produced step Cons.prems
      have "receiveMessage_acks b channel rest events (data @ [item]) s1 = (Inr (events', data'), s')"
        by simp
      from Cons.IH [OF this] show ?thesis .
    next
      case (Some event)
      with Inr produced step have "\<exists>st. event = StatusEvent st"
        by (auto simp: receiveMessage_ack_def Let_def split: if_splits prod.splits option.splits)
      then obtain st where st: "event = StatusEvent st" ..
      from Some Inr produced step Cons.prems
      have "receiveMessage_acks b channel rest (events @ [event]) (data @ [item]) s1 =
              (Inr (events', data'), s')"
        by simp
      from Cons.IH [OF this] obtain sts where "events' = (events @ [event]) @ map StatusEvent sts" ..
      then show ?thesis
        by (intro exI [of _ "st # sts"]) (simp add: st)
    qed
  qed
qed

lemma receiveMessage_events:
  assumes "\<And>m t. Msg.Text (fst (CheckExternalIDSeen b m t)) = Msg.Text m"
    and "\<And>m t. Msg.Attachments (fst (CheckExternalIDSeen b m t)) = Msg.Attachments m"
    and "receiveMessage e b channel (Inr payload) s = (WriteDataResponse events code label data, s')"
  shows "\<exists>msgs sts. events = map MsgEvent msgs @ map StatusEvent sts \<and>
           map Msg.Text msgs =
             map (\<lambda>m. if Type m = ''image'' then Caption m else Body m)
               (filter (\<lambda>m. \<not> FromMe m) (Messages payload)) \<and>
           map Msg.Attachments msgs =
             map (\<lambda>m. if Type m = ''image'' then [Body m] else [])
               (filter (\<lambda>m. \<not> FromMe m) (Messages payload))"
proof -
  from assms(3) obtain events0 data0 s0 data1 where
    loop1: "receiveMessage_messages e b channel (Messages payload) [] [] s = (Inr (events0, data0), s0)"
    and loop2: "receiveMessage_acks b channel (Ack payload) events0 data0 s0 = (Inr (events, data1), s')"
    by (auto simp: receiveMessage_def split: if_splits sum.splits prod.splits
        dest: receiveMessage_messages_Inl)
  from receiveMessage_messages_events [OF assms(1,2) loop1] obtain msgs where
    msgs: "events0 = map MsgEvent msgs"
      "map Msg.Text msgs =
         map (\<lambda>m. if Type m = ''image'' then Caption m else Body m)
           (filter (\<lambda>m. \<not> FromMe m) (Messages payload))"
      "map Msg.Attachments msgs =
         map (\<lambda>m. if Type m = ''image'' then [Body m] else [])
           (filter (\<lambda>m. \<not> FromMe m) (Messages payload))"
    by auto
  from receiveMessage_acks_events [OF loop2] obtain sts where
    "events = events0 @ map StatusEvent sts" ..
  with msgs show ?thesis by blast
qed

text \<open>
  C5. For a backend whose deduplication check leaves the text and the attachments of a
  message as they are: the event that an iteration produces for an entry of type
  \<open>image\<close> has the caption as its text and exactly one attachment, the body; for an
  entry of any other type its text is the body and it has no attachment. So the message
  events of a response are, in order, those of the entries with \<open>fromMe = false\<close>, each
  with this text and these attachments.
\<close>

theorem receiveMessage_image_caption_and_attachment:
  assumes "\<And>m t. Msg.Text (fst (CheckExternalIDSeen b m t)) = Msg.Text m"
    and "\<And>m t. Msg.Attachments (fst (CheckExternalIDSeen b m t)) = Msg.Attachments m"
  shows "(receiveMessage_message e b channel message s = (Inr (Some event), s1) \<longrightarrow>
            Msg.Text event = (if Type message = ''image'' then Caption message else Body message) \<and>
            Msg.Attachments event = (if Type message = ''image'' then [Body message] else [])) \<and>
         (receiveMessage e b channel (Inr payload) s = (WriteDataResponse events code label data, s') \<longrightarrow>
            (\<exists>msgs sts. events = map MsgEvent msgs @ map StatusEvent sts \<and>
               map Msg.Text msgs =
                 map (\<lambda>m. if Type m = ''image'' then Caption m else Body m)
                   (filter (\<lambda>m. \<not> FromMe m) (Messages payload)) \<and>
               map Msg.Attachments msgs =
                 map (\<lambda>m. if Type m = ''image'' then [Body m] else [])
                   (filter (\<lambda>m. \<not> FromMe m) (Messages payload))))"
  using receiveMessage_message_event [OF assms, of e channel message s event s1]
    receiveMessage_events [OF assms, of e channel payload s events code label data s']
  by blast

theorem receiveMessage_image_caption_and_attachment_witness:
  "receiveMessage_message sample_env (spec_Backend (\<lambda>m. None)) sample_channel
     (sample_message ''m1'' ''image'' False) sample_store =
     (Inr (Some (WithAttachment ''B'' (receiveMessage_ev sample_env sample_channel sample_urn
                   (sample_message ''m1'' ''image'' False)))),
      sample_store\<lparr>written := [WithAttachment ''B''
          (receiveMessage_ev sample_env sample_channel sample_urn
             (sample_message ''m1'' ''image'' False))], seen := [''m1'']\<rparr>) \<and>
   Msg.Text (WithAttachment ''B'' (receiveMessage_ev sample_env sample_channel sample_urn
      (sample_message ''m1'' ''image'' False))) = ''C'' \<and>
   Msg.Attachments (WithAttachment ''B'' (receiveMessage_ev sample_env sample_channel sample_urn
      (sample_message ''m1'' ''image'' False))) = [''B''] \<and>
   fst (receiveMessage sample_env (spec_Backend (\<lambda>m. None)) sample_channel
          (Inr sample_payload) sample_store) =
     WriteDataResponse
       [MsgEvent (WithAttachment ''B'' (receiveMessage_ev sample_env sample_channel sample_urn
          (sample_message ''m1'' ''image'' False))),
        MsgEvent (receiveMessage_ev sample_env sample_channel sample_urn
          (sample_message ''m3'' ''chat'' False)),
        StatusEvent (NewMsgStatusForExternalID sample_channel ''out1'' MsgDelivered)]
       200 ''Events Handled''
       [NewMsgReceiveData (WithAttachment ''B'' (receiveMessage_ev sample_env sample_channel
          sample_urn (sample_message ''m1'' ''image'' False))),
        NewMsgReceiveData (receiveMessage_ev sample_env sample_channel sample_urn
          (sample_message ''m3'' ''chat'' False)),
        NewInfoData ''message not found, ignored'',
        NewStatusData (NewMsgStatusForExternalID sample_channel ''out1'' MsgDelivered)] \<and>
   (\<exists>msgs sts.
      [MsgEvent (WithAttachment ''B'' (receiveMessage_ev sample_env sample_channel sample_urn
          (sample_message ''m1'' ''image'' False))),
       MsgEvent (receiveMessage_ev sample_env sample_channel sample_urn
          (sample_message ''m3'' ''chat'' False)),
       StatusEvent (NewMsgStatusForExternalID sample_channel ''out1'' MsgDelivered)] =
        map MsgEvent msgs @ map StatusEvent sts \<and>
      map Msg.Text msgs = [''C'', ''B''] \<and> map Msg.Attachments msgs = [[''B''], []])"
proof -
  let ?B = "spec_Backend (\<lambda>m. None)"
  let ?m1 = "sample_message ''m1'' ''image'' False"
  let ?m2 = "sample_message ''m2'' ''chat'' True"
  let ?m3 = "sample_message ''m3'' ''chat'' False"
  let ?ev1 = "receiveMessage_ev sample_env sample_channel sample_urn ?m1"
  let ?ev3 = "receiveMessage_ev sample_env sample_channel sample_urn ?m3"
  let ?E1 = "WithAttachment ''B'' ?ev1"
  let ?S1 = "sample_store\<lparr>written := [?E1], seen := [''m1'']\<rparr>"
  let ?S3 = "sample_store\<lparr>written := [?E1, ?ev3], seen := [''m3'', ''m1'']\<rparr>"
  let ?st = "NewMsgStatusForExternalID sample_channel ''out1'' MsgDelivered"
  have pres1: "\<And>m t. Msg.Text (fst (CheckExternalIDSeen ?B m t)) = Msg.Text m"
    by (simp add: spec_Backend_simps)
  have pres2: "\<And>m t. Msg.Attachments (fst (CheckExternalIDSeen ?B m t)) = Msg.Attachments m"
    by (simp add: spec_Backend_simps)
  have step1: "receiveMessage_message sample_env ?B sample_channel ?m1 sample_store =
      (Inr (Some ?E1), ?S1)"
    by (rule trans [OF receiveMessage_message_written [where urn = sample_urn and checked = ?ev1
            and ?s1.0 = sample_store and ?s2.0 = "sample_store\<lparr>written := [?E1]\<rparr>"]])
       (simp_all add: sample_urns spec_Backend_simps receiveMessage_ev_fields WithAttachment_def,
        simp_all add: sample_defs)
  have step2: "\<And>t. receiveMessage_message sample_env ?B sample_channel ?m2 t = (Inr None, t)"
    by (simp add: receiveMessage_message_FromMe sample_message_def)
  have step3: "receiveMessage_message sample_env ?B sample_channel ?m3 ?S1 = (Inr (Some ?ev3), ?S3)"
    by (rule trans [OF receiveMessage_message_written [where urn = sample_urn and checked = ?ev3
            and ?s1.0 = ?S1 and ?s2.0 = "?S1\<lparr>written := [?E1, ?ev3]\<rparr>"]])
       (simp_all add: sample_urns spec_Backend_simps receiveMessage_ev_fields WithAttachment_def,
        simp_all add: sample_defs)
  have ack1: "receiveMessage_ack ?B sample_channel unknown_ack ?S3 =
      (Inr (None, NewInfoData ''message not found, ignored''), ?S3)"
    by (simp add: receiveMessage_ack_def Let_def spec_Backend_simps unknown_ack_def
        NewMsgStatusForExternalID_def sample_store_def empty_store_def)
  have ack2: "receiveMessage_ack ?B sample_channel delivered_ack ?S3 =
      (Inr (Some (StatusEvent ?st), NewStatusData ?st), ?S3\<lparr>statuses := [?st]\<rparr>)"
    by (simp add: receiveMessage_ack_def Let_def spec_Backend_simps delivered_ack_def
        NewMsgStatusForExternalID_def sample_store_def empty_store_def)
  have run: "receiveMessage sample_env ?B sample_channel (Inr sample_payload) sample_store =
      (WriteDataResponse [MsgEvent ?E1, MsgEvent ?ev3, StatusEvent ?st] 200 ''Events Handled''
         [NewMsgReceiveData ?E1, NewMsgReceiveData ?ev3,
          NewInfoData ''message not found, ignored'', NewStatusData ?st],
       ?S3\<lparr>statuses := [?st]\<rparr>)"
    by (simp add: receiveMessage_def sample_payload_def step1 step2 step3 ack1 ack2)
  from receiveMessage_image_caption_and_attachment [OF pres1 pres2, of sample_env sample_channel
      ?m1 sample_store ?E1 ?S1 sample_payload "[MsgEvent ?E1, MsgEvent ?ev3, StatusEvent ?st]"
      200 "''Events Handled''"
      "[NewMsgReceiveData ?E1, NewMsgReceiveData ?ev3,
        NewInfoData ''message not found, ignored'', NewStatusData ?st]"
      "?S3\<lparr>statuses := [?st]\<rparr>"]
    step1 run
  show ?thesis
    by (simp add: sample_payload_def sample_message_def)
qed

subsection \<open>Acknowledgements\<close>

lemma receiveMessage_acks_data:
  assumes "receiveMessage_acks b channel acks events data s = (Inr (events', data'), s')"
  shows "\<exists>more. data' = data @ more"
  using assms
proof (induction acks arbitrary: events data s)
  case Nil
  then show ?case by simp
next
  case (Cons ack rest)
  obtain r s1 where step: "receiveMessage_ack b channel ack s = (r, s1)"
    by (cases "receiveMessage_ack b channel ack s")
  show ?case
  proof (cases r)
    case (Inl err)
    with Cons.prems step show ?thesis by simp
  next
    case (Inr produced)
    obtain ev item where produced: "produced = (ev, item)" by (cases produced)
    from Cons.prems step Inr produced
    have "\<exists>events1. receiveMessage_acks b channel rest events1 (data @ [item]) s1 =
            (Inr (events', data'), s')"
      by (cases ev) auto
    then obtain events1 where
      "receiveMessage_acks b channel rest events1 (data @ [item]) s1 = (Inr (events', data'), s')" ..
    from Cons.IH [OF this] obtain more where "data' = (data @ [item]) @ more" ..
    then show ?thesis by simp
  qed
qed

text \<open>
  C6. An acknowledgement at any place of the batch, reached with the events and the data
  collected so far, whose status write fails. When the error is \<open>ErrMsgNotFound\<close>, the
  handler appends the item "message not found, ignored" to the data, adds no event, and
  goes on with the acknowledgements after it: the answer is the one these give, and a
  response that is written holds the item right after the data collected before. Any
  other error ends the handler there: it returns that error, and writes no response.
\<close>

theorem receiveMessage_ack_not_found:
  fixes ack :: moAck and channel :: Channel
  defines "event \<equiv> NewMsgStatusForExternalID channel (moAck.ID ack)
                      (if moAck.Status ack = ''sent'' then MsgSent
                       else if moAck.Status ack = ''delivered'' then MsgDelivered
                       else MsgQueued)"
  assumes "InstanceID payload \<noteq> ''''"
    and "Ack payload = before @ ack # after"
    and "receiveMessage_messages e b channel (Messages payload) [] [] s = (Inr (events0, data0), s0)"
    and "receiveMessage_acks b channel before events0 data0 s0 = (Inr (events1, data1), s1)"
    and "WriteMsgStatus b event s1 = (Some err, s2)"
  shows "receiveMessage e b channel (Inr payload) s =
           (if err = ErrMsgNotFound
            then (case receiveMessage_acks b channel after events1
                         (data1 @ [NewInfoData ''message not found, ignored'']) s2 of
                    (Inl err', s3) \<Rightarrow> (ReturnError err', s3)
                  | (Inr (events, data), s3) \<Rightarrow>
                      (WriteDataResponse events 200 ''Events Handled'' data, s3))
            else (ReturnError err, s2)) \<and>
         (receiveMessage e b channel (Inr payload) s =
            (WriteDataResponse events code label data, s') \<longrightarrow>
          err = ErrMsgNotFound \<and>
          (\<exists>more. data = data1 @ NewInfoData ''message not found, ignored'' # more))"
proof -
  have run: "receiveMessage e b channel (Inr payload) s =
           (if err = ErrMsgNotFound
            then (case receiveMessage_acks b channel after events1
                         (data1 @ [NewInfoData ''message not found, ignored'']) s2 of
                    (Inl err', s3) \<Rightarrow> (ReturnError err', s3)
                  | (Inr (events, data), s3) \<Rightarrow>
                      (WriteDataResponse events 200 ''Events Handled'' data, s3))
            else (ReturnError err, s2))"
    using assms
    by (simp add: receiveMessage_def receiveMessage_acks_append receiveMessage_ack_def Let_def)
  have "err = ErrMsgNotFound \<and>
        (\<exists>more. data = data1 @ NewInfoData ''message not found, ignored'' # more)"
    if fin: "receiveMessage e b channel (Inr payload) s =
            (WriteDataResponse events code label data, s')"
  proof -
    from run fin have nf: "err = ErrMsgNotFound"
      by (auto split: if_splits)
    with run fin have "receiveMessage_acks b channel after events1
        (data1 @ [NewInfoData ''message not found, ignored'']) s2 = (Inr (events, data), s')"
      by (auto split: prod.splits sum.splits)
    from receiveMessage_acks_data [OF this] nf show ?thesis by auto
  qed
  with run show ?thesis by blast
qed

theorem receiveMessage_ack_not_found_witness:
  "WriteMsgStatus (spec_Backend (\<lambda>m. None))
     (NewMsgStatusForExternalID sample_channel ''unknown'' MsgSent) sample_store =
     (Some ErrMsgNotFound, sample_store) \<and>
   receiveMessage sample_env (spec_Backend (\<lambda>m. None)) sample_channel
     (Inr (sample_payload\<lparr>Messages := []\<rparr>)) sample_store =
     (WriteDataResponse
        [StatusEvent (NewMsgStatusForExternalID sample_channel ''out1'' MsgDelivered)]
        200 ''Events Handled''
        [NewInfoData ''message not found, ignored'',
         NewStatusData (NewMsgStatusForExternalID sample_channel ''out1'' MsgDelivered)],
      sample_store\<lparr>statuses := [NewMsgStatusForExternalID sample_channel ''out1'' MsgDelivered]\<rparr>) \<and>
   receiveMessage sample_env
     ((spec_Backend (\<lambda>m. None))\<lparr>WriteMsgStatus := (\<lambda>st s. (Some (Err ''db down''), s))\<rparr>)
     sample_channel (Inr (sample_payload\<lparr>Messages := []\<rparr>)) sample_store =
     (ReturnError (Err ''db down''), sample_store)"
proof -
  let ?P = "sample_payload\<lparr>Messages := []\<rparr>"
  let ?B = "spec_Backend (\<lambda>m. None)"
  let ?D = "(spec_Backend (\<lambda>m. None))\<lparr>WriteMsgStatus := (\<lambda>st s. (Some (Err ''db down''), s))\<rparr>"
  let ?event = "NewMsgStatusForExternalID sample_channel (moAck.ID unknown_ack)
                  (if moAck.Status unknown_ack = ''sent'' then MsgSent
                   else if moAck.Status unknown_ack = ''delivered'' then MsgDelivered
                   else MsgQueued)"
  have p1: "InstanceID ?P \<noteq> ''''" by (simp add: sample_payload_def)
  have p2: "Ack ?P = [] @ unknown_ack # [delivered_ack]" by (simp add: sample_payload_def)
  have p3: "\<And>b. receiveMessage_messages sample_env b sample_channel (Messages ?P) [] [] sample_store =
              (Inr ([], []), sample_store)"
    by simp
  have p4: "\<And>b. receiveMessage_acks b sample_channel [] [] [] sample_store =
              (Inr ([], []), sample_store)"
    by simp
  have p5: "WriteMsgStatus ?B ?event sample_store = (Some ErrMsgNotFound, sample_store)"
    by (simp add: spec_Backend_simps NewMsgStatusForExternalID_def sample_store_def
        empty_store_def unknown_ack_def)
  have p6: "WriteMsgStatus ?D ?event sample_store = (Some (Err ''db down''), sample_store)"
    by simp
  have rest: "receiveMessage_acks ?B sample_channel [delivered_ack] []
                ([] @ [NewInfoData ''message not found, ignored'']) sample_store =
              (Inr ([StatusEvent (NewMsgStatusForExternalID sample_channel ''out1'' MsgDelivered)],
                    [NewInfoData ''message not found, ignored'',
                     NewStatusData (NewMsgStatusForExternalID sample_channel ''out1'' MsgDelivered)]),
               sample_store\<lparr>statuses :=
                 [NewMsgStatusForExternalID sample_channel ''out1'' MsgDelivered]\<rparr>)"
    by (simp add: receiveMessage_ack_def Let_def spec_Backend_simps delivered_ack_def
        NewMsgStatusForExternalID_def sample_store_def empty_store_def)
  from receiveMessage_ack_not_found [OF p1 p2 p3 p4 p5]
       receiveMessage_ack_not_found [OF p1 p2 p3 p4 p6] rest p5
  show ?thesis by (simp add: unknown_ack_def)
qed

subsection \<open>A failing write\<close>

text \<open>
  C7. A batch whose entries before \<open>message\<close> went through, and the write of the event
  of \<open>message\<close> fails with \<open>err\<close>: the handler returns \<open>err\<close> and writes no response.
  Its last backend calls are the check and the failed write of that event: no entry after
  it and no acknowledgement is processed. The state is the one the failed write left,
  reached from the state after the earlier entries, whose writes are not undone.
\<close>

theorem receiveMessage_aborts_on_write_failure:
  assumes "InstanceID payload \<noteq> ''''"
    and "Messages payload = before @ message # after"
    and "receiveMessage_messages e (recording b) channel before [] [] (s, calls) =
           (Inr (events1, data1), (s1, calls1))"
    and "FromMe message = False"
    and "NewWhatsAppURN e (strings_Replace (Author message) ''@c.us'' '''' 1) = Inr urn"
    and "CheckExternalIDSeen b (receiveMessage_ev e channel urn message) s1 = (checked, s2)"
    and "event = (if Type message = ''image'' then WithAttachment (Body message) checked else checked)"
    and "WriteMsg b event s2 = (Some err, s3)"
  shows "receiveMessage e (recording b) channel (Inr payload) (s, calls) =
           (ReturnError err,
            (s3, calls1 @ [Call_CheckExternalIDSeen (receiveMessage_ev e channel urn message),
                           Call_WriteMsg event]))"
proof -
  have "receiveMessage_message e (recording b) channel message (s1, calls1) =
          (Inl (ReturnError err),
           (s3, calls1 @ [Call_CheckExternalIDSeen (receiveMessage_ev e channel urn message),
                          Call_WriteMsg event]))"
    using assms(4-8)
    by (intro receiveMessage_message_write_fails [where urn = urn and checked = checked
          and ?s1.0 = "(s2, calls1 @ [Call_CheckExternalIDSeen (receiveMessage_ev e channel urn message)])"])
       (simp_all add: recording_simps)
  then show ?thesis
    using assms(1-3) by (simp add: receiveMessage_def receiveMessage_messages_append)
qed

theorem receiveMessage_aborts_on_write_failure_witness:
  "receiveMessage_messages sample_env (recording (spec_Backend fail_m3)) sample_channel
     [sample_message ''m1'' ''image'' False, sample_message ''m2'' ''chat'' True] [] []
     (sample_store, []) =
     (Inr ([MsgEvent (WithAttachment ''B''
              (receiveMessage_ev sample_env sample_channel sample_urn
                 (sample_message ''m1'' ''image'' False)))],
           [NewMsgReceiveData (WithAttachment ''B''
              (receiveMessage_ev sample_env sample_channel sample_urn
                 (sample_message ''m1'' ''image'' False)))]),
      (sample_store\<lparr>written := [WithAttachment ''B''
              (receiveMessage_ev sample_env sample_channel sample_urn
                 (sample_message ''m1'' ''image'' False))], seen := [''m1'']\<rparr>,
       [Call_CheckExternalIDSeen (receiveMessage_ev sample_env sample_channel sample_urn
                 (sample_message ''m1'' ''image'' False)),
        Call_WriteMsg (WithAttachment ''B'' (receiveMessage_ev sample_env sample_channel sample_urn
                 (sample_message ''m1'' ''image'' False))),
        Call_WriteExternalIDSeen (WithAttachment ''B''
           (receiveMessage_ev sample_env sample_channel sample_urn
                 (sample_message ''m1'' ''image'' False)))])) \<and>
   receiveMessage sample_env (recording (spec_Backend fail_m3)) sample_channel
     (Inr sample_payload) (sample_store, []) =
     (ReturnError (Err ''db down''),
      (sample_store\<lparr>written := [WithAttachment ''B''
              (receiveMessage_ev sample_env sample_channel sample_urn
                 (sample_message ''m1'' ''image'' False))], seen := [''m1'']\<rparr>,
       [Call_CheckExternalIDSeen (receiveMessage_ev sample_env sample_channel sample_urn
                 (sample_message ''m1'' ''image'' False)),
        Call_WriteMsg (WithAttachment ''B'' (receiveMessage_ev sample_env sample_channel sample_urn
                 (sample_message ''m1'' ''image'' False))),
        Call_WriteExternalIDSeen (WithAttachment ''B''
           (receiveMessage_ev sample_env sample_channel sample_urn
                 (sample_message ''m1'' ''image'' False))),
        Call_CheckExternalIDSeen (receiveMessage_ev sample_env sample_channel sample_urn
                 (sample_message ''m3'' ''chat'' False)),
        Call_WriteMsg (receiveMessage_ev sample_env sample_channel sample_urn
                 (sample_message ''m3'' ''chat'' False))]))"
proof -
  let ?m1 = "sample_message ''m1'' ''image'' False"
  let ?m2 = "sample_message ''m2'' ''chat'' True"
  let ?m3 = "sample_message ''m3'' ''chat'' False"
  let ?ev1 = "receiveMessage_ev sample_env sample_channel sample_urn ?m1"
  let ?ev3 = "receiveMessage_ev sample_env sample_channel sample_urn ?m3"
  let ?E1 = "WithAttachment ''B'' ?ev1"
  let ?S1 = "sample_store\<lparr>written := [?E1], seen := [''m1'']\<rparr>"
  let ?calls1 = "[Call_CheckExternalIDSeen ?ev1, Call_WriteMsg ?E1, Call_WriteExternalIDSeen ?E1]"
  have step1: "receiveMessage_message sample_env (recording (spec_Backend fail_m3)) sample_channel
      ?m1 (sample_store, []) = (Inr (Some ?E1), (?S1, ?calls1))"
    by (rule trans [OF receiveMessage_message_written [where urn = sample_urn and checked = ?ev1
            and ?s1.0 = "(sample_store, [Call_CheckExternalIDSeen ?ev1])"
            and ?s2.0 = "(sample_store\<lparr>written := [?E1]\<rparr>, [Call_CheckExternalIDSeen ?ev1, Call_WriteMsg ?E1])"]])
       (simp_all add: sample_urns recording_simps spec_Backend_simps receiveMessage_ev_fields
          WithAttachment_def fail_m3_def,
        simp_all add: sample_defs)
  have step2: "\<And>t. receiveMessage_message sample_env (recording (spec_Backend fail_m3)) sample_channel
      ?m2 t = (Inr None, t)"
    by (simp add: receiveMessage_message_FromMe sample_message_def)
  have p1: "InstanceID sample_payload \<noteq> ''''" by (simp add: sample_payload_def)
  have p2: "Messages sample_payload = [?m1, ?m2] @ ?m3 # []" by (simp add: sample_payload_def)
  have p3: "receiveMessage_messages sample_env (recording (spec_Backend fail_m3)) sample_channel
      [?m1, ?m2] [] [] (sample_store, []) =
      (Inr ([MsgEvent ?E1], [NewMsgReceiveData ?E1]), (?S1, ?calls1))"
    by (simp add: step1 step2)
  have p4: "FromMe ?m3 = False" by (simp add: sample_message_def)
  have p5: "NewWhatsAppURN sample_env (strings_Replace (Author ?m3) ''@c.us'' '''' 1) = Inr sample_urn"
    by (rule sample_urns)
  have p6: "CheckExternalIDSeen (spec_Backend fail_m3) ?ev3 ?S1 = (?ev3, ?S1)"
    by (simp add: spec_Backend_simps receiveMessage_ev_fields sample_message_def)
  have p7: "?ev3 = (if Type ?m3 = ''image'' then WithAttachment (Body ?m3) ?ev3 else ?ev3)"
    by (simp add: sample_message_def)
  have p8: "WriteMsg (spec_Backend fail_m3) ?ev3 ?S1 = (Some (Err ''db down''), ?S1)"
    by (simp add: spec_Backend_simps receiveMessage_ev_fields fail_m3_def, simp add: sample_message_def)
  from receiveMessage_aborts_on_write_failure [OF p1 p2 p3 p4 p5 p6 p7 p8] p3
  show ?thesis by simp
qed

subsection \<open>Receiving a message twice\<close>

lemma receiveMessage_message_calls:
  assumes "FromMe message = False"
    and "NewWhatsAppURN e (strings_Replace (Author message) ''@c.us'' '''' 1) = Inr urn"
    and "ev = receiveMessage_ev e channel urn message"
    and "event = (if Type message = ''image''
                  then WithAttachment (Body message) (fst (CheckExternalIDSeen b ev t))
                  else fst (CheckExternalIDSeen b ev t))"
  shows "snd (snd (receiveMessage_message e (recording b) channel message (t, calls))) =
           calls @
           (if fst (WriteMsg b event (snd (CheckExternalIDSeen b ev t))) = None
            then [Call_CheckExternalIDSeen ev, Call_WriteMsg event, Call_WriteExternalIDSeen event]
            else [Call_CheckExternalIDSeen ev, Call_WriteMsg event])"
  using assms
  by (cases "Type message = ''image''")
     (auto simp: receiveMessage_message_def Let_def recording_simps split_beta
        split: option.splits)

lemma spec_Backend_message:
  "receiveMessage_message e (spec_Backend fail) channel message s =
     (if FromMe message then (Inr None, s)
      else case NewWhatsAppURN e (strings_Replace (Author message) ''@c.us'' '''' 1) of
             Inl errURN \<Rightarrow> (Inl (WriteAndLogRequestError errURN), s)
           | Inr urn \<Rightarrow>
               (let event = (if Type message = ''image''
                             then WithAttachment (Body message) (receiveMessage_ev e channel urn message)
                             else receiveMessage_ev e channel urn message)
                in if moMessage.ID message \<in> set (seen s)
                   then (Inr (Some (event\<lparr>AlreadySeen := True\<rparr>)),
                         s\<lparr>seen := moMessage.ID message # seen s\<rparr>)
                   else (case fail event of
                           Some err \<Rightarrow> (Inl (ReturnError err), s)
                         | None \<Rightarrow>
                             (Inr (Some event),
                              s\<lparr>written := written s @ [event],
                                seen := moMessage.ID message # seen s\<rparr>))))"
  by (cases "Type message = ''image''")
     (simp_all add: receiveMessage_message_def Let_def spec_Backend_simps receiveMessage_ev_fields
        WithAttachment_def split: sum.splits option.splits)

lemma spec_Backend_message_store:
  assumes "receiveMessage_message e (spec_Backend fail) channel message s = (r, s')"
  shows "set (seen s) \<subseteq> set (seen s')"
    and "persisted x s' = persisted x s + (if x \<in> set (seen s') \<and> x \<notin> set (seen s) then 1 else 0)"
    and "moMessage.ID message \<in> set (seen s) \<Longrightarrow> written s' = written s"
    and "FromMe message \<Longrightarrow> written s' = written s"
    and "r = Inr (Some event) \<Longrightarrow> moMessage.ID message \<in> set (seen s')"
    and "r = Inr None \<Longrightarrow> FromMe message"
  using assms
  by (auto simp: spec_Backend_message Let_def persisted_def receiveMessage_ev_fields
      WithAttachment_def split: if_splits sum.splits option.splits)

lemma spec_Backend_messages_store:
  assumes "receiveMessage_messages e (spec_Backend fail) channel messages events data s = (r, s')"
  shows "set (seen s) \<subseteq> set (seen s') \<and>
         (\<forall>x. persisted x s' =
                persisted x s + (if x \<in> set (seen s') \<and> x \<notin> set (seen s) then 1 else 0)) \<and>
         ((\<forall>m \<in> set messages. \<not> FromMe m \<longrightarrow> moMessage.ID m \<in> set (seen s)) \<longrightarrow>
             written s' = written s) \<and>
         ((\<exists>res. r = Inr res) \<longrightarrow>
             (\<forall>m \<in> set messages. \<not> FromMe m \<longrightarrow> moMessage.ID m \<in> set (seen s')))"
  using assms
proof (induction messages arbitrary: events data s)
  case Nil
  then show ?case by simp
next
  case (Cons message rest)
  obtain r1 s1 where step: "receiveMessage_message e (spec_Backend fail) channel message s = (r1, s1)"
    by (cases "receiveMessage_message e (spec_Backend fail) channel message s")
  note st = spec_Backend_message_store [OF step]
  show ?case
  proof (cases r1)
    case (Inl out)
    with Cons.prems step have "r = Inl out" "s' = s1" by simp_all
    with st show ?thesis by auto
  next
    case (Inr produced)
    from Cons.prems step Inr obtain events1 data1 where
      rest: "receiveMessage_messages e (spec_Backend fail) channel rest events1 data1 s1 = (r, s')"
      by (cases produced) auto
    note ih = Cons.IH [OF rest]
    have seen: "set (seen s) \<subseteq> set (seen s')"
      using st(1) ih by blast
    have cnt: "persisted x s' =
        persisted x s + (if x \<in> set (seen s') \<and> x \<notin> set (seen s) then 1 else 0)" for x
      using st(1) st(2) [of x] ih by auto
    have same: "written s' = written s"
      if "\<forall>m \<in> set (message # rest). \<not> FromMe m \<longrightarrow> moMessage.ID m \<in> set (seen s)"
    proof -
      have "written s1 = written s"
        using that st(3) st(4) by (cases "FromMe message") auto
      moreover have "written s' = written s1"
        using that st(1) ih by auto
      ultimately show ?thesis by simp
    qed
    have all: "\<forall>m \<in> set (message # rest). \<not> FromMe m \<longrightarrow> moMessage.ID m \<in> set (seen s')"
      if "\<exists>res. r = Inr res"
    proof -
      have "\<not> FromMe message \<Longrightarrow> moMessage.ID message \<in> set (seen s1)"
        using st(5) st(6) Inr by (cases produced) auto
      with that ih show ?thesis by auto
    qed
    from seen cnt same all show ?thesis by blast
  qed
qed

lemma spec_Backend_acks_store:
  assumes "receiveMessage_acks (spec_Backend fail) channel acks events data s = (r, s')"
  shows "written s' = written s \<and> seen s' = seen s"
  using assms
proof (induction acks arbitrary: events data s)
  case Nil
  then show ?case by simp
next
  case (Cons ack rest)
  obtain r1 s1 where step: "receiveMessage_ack (spec_Backend fail) channel ack s = (r1, s1)"
    by (cases "receiveMessage_ack (spec_Backend fail) channel ack s")
  then have s1: "written s1 = written s \<and> seen s1 = seen s"
    by (auto simp: receiveMessage_ack_def Let_def spec_Backend_simps
        split: if_splits option.splits)
  show ?case
  proof (cases r1)
    case (Inl err)
    with Cons.prems step s1 show ?thesis by simp
  next
    case (Inr produced)
    obtain ev item where "produced = (ev, item)" by (cases produced)
    with Cons.prems step Inr obtain events1 data1 where
      "receiveMessage_acks (spec_Backend fail) channel rest events1 data1 s1 = (r, s')"
      by (cases ev) auto
    from Cons.IH [OF this] s1 show ?thesis by simp
  qed
qed

lemma spec_Backend_receiveMessage_store:
  assumes "receiveMessage e (spec_Backend fail) channel (Inr payload) s = (out, s')"
  shows "set (seen s) \<subseteq> set (seen s') \<and>
         (\<forall>x. persisted x s' =
                persisted x s + (if x \<in> set (seen s') \<and> x \<notin> set (seen s) then 1 else 0)) \<and>
         ((\<forall>m \<in> set (Messages payload). \<not> FromMe m \<longrightarrow> moMessage.ID m \<in> set (seen s)) \<longrightarrow>
             written s' = written s) \<and>
         ((\<exists>events code label data. out = WriteDataResponse events code label data) \<longrightarrow>
             (\<forall>m \<in> set (Messages payload). \<not> FromMe m \<longrightarrow> moMessage.ID m \<in> set (seen s')))"
proof (cases "InstanceID payload = ''''")
  case True
  with assms show ?thesis by (auto simp: receiveMessage_def)
next
  case False
  obtain r1 s1 where loop1:
    "receiveMessage_messages e (spec_Backend fail) channel (Messages payload) [] [] s = (r1, s1)"
    by (cases "receiveMessage_messages e (spec_Backend fail) channel (Messages payload) [] [] s")
  note m = spec_Backend_messages_store [OF loop1]
  show ?thesis
  proof (cases r1)
    case (Inl out1)
    with assms False loop1 have "s' = s1" "out = out1" by (simp_all add: receiveMessage_def)
    moreover from loop1 Inl have "\<nexists>events code label data. out1 = WriteDataResponse events code label data"
      by (auto dest: receiveMessage_messages_Inl)
    ultimately show ?thesis using m by auto
  next
    case (Inr produced)
    obtain events1 data1 where produced: "produced = (events1, data1)" by (cases produced)
    obtain r2 s2 where loop2:
      "receiveMessage_acks (spec_Backend fail) channel (Ack payload) events1 data1 s1 = (r2, s2)"
      by (cases "receiveMessage_acks (spec_Backend fail) channel (Ack payload) events1 data1 s1")
    from assms False loop1 Inr produced loop2 have "s' = s2"
      by (auto simp: receiveMessage_def split: sum.splits)
    with spec_Backend_acks_store [OF loop2] have "written s' = written s1" "seen s' = seen s1"
      by simp_all
    with m Inr show ?thesis by (auto simp: persisted_def)
  qed
qed

text \<open>
  C8. For every entry with \<open>fromMe = false\<close> whose URN is built, at any place of a batch
  and for every backend, the iteration calls the deduplication check on the message it
  built, then the write, and records the external id as seen after the write, only when
  the write returned no error. The handler calls the write on every submission: that a
  message already seen is not persisted again is the backend's part, taken here from the
  backend after the spec. On that backend, for two requests of any shape (any messages,
  any acknowledgements) submitted one after the other, from any store and whatever the
  two outcomes: no external id gains more than one persisted message over the two
  submissions, and none when it was seen before. When the first request is answered,
  each of its entries with \<open>fromMe = false\<close> whose external id was not seen before has
  exactly one persisted message more than before (the only one when none was persisted
  before), whatever the second request submits again; and a second request that only
  repeats external ids of the first, the same request submitted twice among them,
  persists nothing. When the second request is answered the same count holds for its
  entries.
\<close>

theorem receiveMessage_idempotent:
  "(FromMe message = False \<longrightarrow>
    NewWhatsAppURN e (strings_Replace (Author message) ''@c.us'' '''' 1) = Inr urn \<longrightarrow>
    ev = receiveMessage_ev e channel urn message \<longrightarrow>
    event = (if Type message = ''image''
             then WithAttachment (Body message) (fst (CheckExternalIDSeen b ev t))
             else fst (CheckExternalIDSeen b ev t)) \<longrightarrow>
    snd (snd (receiveMessage_message e (recording b) channel message (t, calls))) =
      calls @
      (if fst (WriteMsg b event (snd (CheckExternalIDSeen b ev t))) = None
       then [Call_CheckExternalIDSeen ev, Call_WriteMsg event, Call_WriteExternalIDSeen event]
       else [Call_CheckExternalIDSeen ev, Call_WriteMsg event])) \<and>
   (receiveMessage e (spec_Backend fail) channel (Inr payload) s = (out1, s1) \<longrightarrow>
    receiveMessage e (spec_Backend fail) channel (Inr payload') s1 = (out2, s2) \<longrightarrow>
      persisted x s2 \<le> persisted x s + 1 \<and>
      (x \<in> set (seen s) \<longrightarrow> persisted x s2 = persisted x s) \<and>
      ((\<exists>events code label data. out1 = WriteDataResponse events code label data) \<longrightarrow>
         (\<forall>m \<in> set (Messages payload). \<not> FromMe m \<longrightarrow>
            persisted (moMessage.ID m) s2 =
              persisted (moMessage.ID m) s + (if moMessage.ID m \<in> set (seen s) then 0 else 1)) \<and>
         ((\<forall>m' \<in> set (Messages payload'). \<not> FromMe m' \<longrightarrow>
             (\<exists>m \<in> set (Messages payload). \<not> FromMe m \<and> moMessage.ID m = moMessage.ID m')) \<longrightarrow>
          written s2 = written s1)) \<and>
      ((\<exists>events code label data. out2 = WriteDataResponse events code label data) \<longrightarrow>
         (\<forall>m \<in> set (Messages payload'). \<not> FromMe m \<longrightarrow>
            persisted (moMessage.ID m) s2 =
              persisted (moMessage.ID m) s + (if moMessage.ID m \<in> set (seen s) then 0 else 1))))"
proof (intro conjI impI)
  assume "FromMe message = False"
    and "NewWhatsAppURN e (strings_Replace (Author message) ''@c.us'' '''' 1) = Inr urn"
    and "ev = receiveMessage_ev e channel urn message"
    and "event = (if Type message = ''image''
             then WithAttachment (Body message) (fst (CheckExternalIDSeen b ev t))
             else fst (CheckExternalIDSeen b ev t))"
  then show "snd (snd (receiveMessage_message e (recording b) channel message (t, calls))) =
      calls @
      (if fst (WriteMsg b event (snd (CheckExternalIDSeen b ev t))) = None
       then [Call_CheckExternalIDSeen ev, Call_WriteMsg event, Call_WriteExternalIDSeen event]
       else [Call_CheckExternalIDSeen ev, Call_WriteMsg event])"
    by (rule receiveMessage_message_calls)
next
  assume first: "receiveMessage e (spec_Backend fail) channel (Inr payload) s = (out1, s1)"
    and second: "receiveMessage e (spec_Backend fail) channel (Inr payload') s1 = (out2, s2)"
  note r1 = spec_Backend_receiveMessage_store [OF first]
  note r2 = spec_Backend_receiveMessage_store [OF second]
  have seen: "set (seen s) \<subseteq> set (seen s1)" "set (seen s1) \<subseteq> set (seen s2)"
    using r1 r2 by blast+
  have cnt: "persisted y s2 =
      persisted y s + (if y \<in> set (seen s2) \<and> y \<notin> set (seen s) then 1 else 0)" for y
  proof -
    have "persisted y s1 =
        persisted y s + (if y \<in> set (seen s1) \<and> y \<notin> set (seen s) then 1 else 0)"
      using r1 by blast
    moreover have "persisted y s2 =
        persisted y s1 + (if y \<in> set (seen s2) \<and> y \<notin> set (seen s1) then 1 else 0)"
      using r2 by blast
    ultimately show ?thesis using seen by auto
  qed
  show "persisted x s2 \<le> persisted x s + 1"
    using cnt [of x] by simp
  show "persisted x s2 = persisted x s" if "x \<in> set (seen s)"
    using cnt [of x] that by simp
  show "\<forall>m \<in> set (Messages payload). \<not> FromMe m \<longrightarrow>
          persisted (moMessage.ID m) s2 =
            persisted (moMessage.ID m) s + (if moMessage.ID m \<in> set (seen s) then 0 else 1)"
    if "\<exists>events code label data. out1 = WriteDataResponse events code label data"
  proof (intro ballI impI)
    fix m assume "m \<in> set (Messages payload)" "\<not> FromMe m"
    with that r1 have "moMessage.ID m \<in> set (seen s1)" by blast
    with seen have "moMessage.ID m \<in> set (seen s2)" by blast
    with cnt [of "moMessage.ID m"]
    show "persisted (moMessage.ID m) s2 =
            persisted (moMessage.ID m) s + (if moMessage.ID m \<in> set (seen s) then 0 else 1)"
      by simp
  qed
  show "written s2 = written s1"
    if "\<exists>events code label data. out1 = WriteDataResponse events code label data"
      and "\<forall>m' \<in> set (Messages payload'). \<not> FromMe m' \<longrightarrow>
             (\<exists>m \<in> set (Messages payload). \<not> FromMe m \<and> moMessage.ID m = moMessage.ID m')"
  proof -
    from that(1) r1 have "\<forall>m \<in> set (Messages payload). \<not> FromMe m \<longrightarrow>
        moMessage.ID m \<in> set (seen s1)"
      by blast
    with that(2) have "\<forall>m' \<in> set (Messages payload'). \<not> FromMe m' \<longrightarrow>
        moMessage.ID m' \<in> set (seen s1)"
      by metis
    with r2 show ?thesis by blast
  qed
  show "\<forall>m \<in> set (Messages payload'). \<not> FromMe m \<longrightarrow>
          persisted (moMessage.ID m) s2 =
            persisted (moMessage.ID m) s + (if moMessage.ID m \<in> set (seen s) then 0 else 1)"
    if "\<exists>events code label data. out2 = WriteDataResponse events code label data"
  proof (intro ballI impI)
    fix m assume "m \<in> set (Messages payload')" "\<not> FromMe m"
    with that r2 have "moMessage.ID m \<in> set (seen s2)" by blast
    with cnt [of "moMessage.ID m"]
    show "persisted (moMessage.ID m) s2 =
            persisted (moMessage.ID m) s + (if moMessage.ID m \<in> set (seen s) then 0 else 1)"
      by simp
  qed
qed

theorem receiveMessage_idempotent_witness:
  "snd (snd (receiveMessage_message sample_env (recording (spec_Backend (\<lambda>m. None)))
      sample_channel (sample_message ''m1'' ''image'' False) (sample_store, []))) =
     [Call_CheckExternalIDSeen (receiveMessage_ev sample_env sample_channel sample_urn
        (sample_message ''m1'' ''image'' False)),
      Call_WriteMsg (WithAttachment ''B'' (receiveMessage_ev sample_env sample_channel sample_urn
        (sample_message ''m1'' ''image'' False))),
      Call_WriteExternalIDSeen (WithAttachment ''B''
        (receiveMessage_ev sample_env sample_channel sample_urn
           (sample_message ''m1'' ''image'' False)))] \<and>
   (\<exists>events data.
      fst (receiveMessage sample_env (spec_Backend (\<lambda>m. None)) sample_channel
             (Inr sample_payload) sample_store) =
        WriteDataResponse events 200 ''Events Handled'' data) \<and>
   persisted ''m1'' sample_store = 0 \<and>
   persisted ''m3'' sample_store = 0 \<and>
   persisted ''m1''
     (snd (receiveMessage sample_env (spec_Backend (\<lambda>m. None)) sample_channel (Inr sample_payload)
        (snd (receiveMessage sample_env (spec_Backend (\<lambda>m. None)) sample_channel
                (Inr sample_payload) sample_store)))) = 1 \<and>
   persisted ''m3''
     (snd (receiveMessage sample_env (spec_Backend (\<lambda>m. None)) sample_channel (Inr sample_payload)
        (snd (receiveMessage sample_env (spec_Backend (\<lambda>m. None)) sample_channel
                (Inr sample_payload) sample_store)))) = 1 \<and>
   written
     (snd (receiveMessage sample_env (spec_Backend (\<lambda>m. None)) sample_channel (Inr sample_payload)
        (snd (receiveMessage sample_env (spec_Backend (\<lambda>m. None)) sample_channel
                (Inr sample_payload) sample_store)))) =
   written (snd (receiveMessage sample_env (spec_Backend (\<lambda>m. None)) sample_channel
                   (Inr sample_payload) sample_store))"
proof -
  let ?B = "spec_Backend (\<lambda>m. None)"
  let ?m1 = "sample_message ''m1'' ''image'' False"
  let ?m2 = "sample_message ''m2'' ''chat'' True"
  let ?m3 = "sample_message ''m3'' ''chat'' False"
  let ?ev1 = "receiveMessage_ev sample_env sample_channel sample_urn ?m1"
  let ?ev3 = "receiveMessage_ev sample_env sample_channel sample_urn ?m3"
  let ?E1 = "WithAttachment ''B'' ?ev1"
  let ?S1 = "sample_store\<lparr>written := [?E1], seen := [''m1'']\<rparr>"
  let ?S3 = "sample_store\<lparr>written := [?E1, ?ev3], seen := [''m3'', ''m1'']\<rparr>"
  let ?st = "NewMsgStatusForExternalID sample_channel ''out1'' MsgDelivered"
  let ?R1 = "receiveMessage sample_env ?B sample_channel (Inr sample_payload) sample_store"
  let ?R2 = "receiveMessage sample_env ?B sample_channel (Inr sample_payload) (snd ?R1)"
  have step1: "receiveMessage_message sample_env ?B sample_channel ?m1 sample_store =
      (Inr (Some ?E1), ?S1)"
    by (rule trans [OF receiveMessage_message_written [where urn = sample_urn and checked = ?ev1
            and ?s1.0 = sample_store and ?s2.0 = "sample_store\<lparr>written := [?E1]\<rparr>"]])
       (simp_all add: sample_urns spec_Backend_simps receiveMessage_ev_fields WithAttachment_def,
        simp_all add: sample_defs)
  have step2: "\<And>t. receiveMessage_message sample_env ?B sample_channel ?m2 t = (Inr None, t)"
    by (simp add: receiveMessage_message_FromMe sample_message_def)
  have step3: "receiveMessage_message sample_env ?B sample_channel ?m3 ?S1 = (Inr (Some ?ev3), ?S3)"
    by (rule trans [OF receiveMessage_message_written [where urn = sample_urn and checked = ?ev3
            and ?s1.0 = ?S1 and ?s2.0 = "?S1\<lparr>written := [?E1, ?ev3]\<rparr>"]])
       (simp_all add: sample_urns spec_Backend_simps receiveMessage_ev_fields WithAttachment_def,
        simp_all add: sample_defs)
  have ack1: "receiveMessage_ack ?B sample_channel unknown_ack ?S3 =
      (Inr (None, NewInfoData ''message not found, ignored''), ?S3)"
    by (simp add: receiveMessage_ack_def Let_def spec_Backend_simps unknown_ack_def
        NewMsgStatusForExternalID_def sample_store_def empty_store_def)
  have ack2: "receiveMessage_ack ?B sample_channel delivered_ack ?S3 =
      (Inr (Some (StatusEvent ?st), NewStatusData ?st), ?S3\<lparr>statuses := [?st]\<rparr>)"
    by (simp add: receiveMessage_ack_def Let_def spec_Backend_simps delivered_ack_def
        NewMsgStatusForExternalID_def sample_store_def empty_store_def)
  have run: "?R1 =
      (WriteDataResponse [MsgEvent ?E1, MsgEvent ?ev3, StatusEvent ?st] 200 ''Events Handled''
         [NewMsgReceiveData ?E1, NewMsgReceiveData ?ev3,
          NewInfoData ''message not found, ignored'', NewStatusData ?st],
       ?S3\<lparr>statuses := [?st]\<rparr>)"
    by (simp add: receiveMessage_def sample_payload_def step1 step2 step3 ack1 ack2)
  have answered1: "\<exists>events code label data. fst ?R1 = WriteDataResponse events code label data"
    by (subst run) auto
  have ex: "\<exists>events data. fst ?R1 = WriteDataResponse events 200 ''Events Handled'' data"
    by (subst run) simp
  have before: "persisted ''m1'' sample_store = 0" "persisted ''m3'' sample_store = 0"
    "''m1'' \<notin> set (seen sample_store)" "''m3'' \<notin> set (seen sample_store)"
    by (simp_all add: persisted_def sample_store_def empty_store_def)
  have in1: "?m1 \<in> set (Messages sample_payload)" and in3: "?m3 \<in> set (Messages sample_payload)"
    by (simp_all add: sample_payload_def)
  have own: "\<not> FromMe ?m1" "\<not> FromMe ?m3"
    and ids: "moMessage.ID ?m1 = ''m1''" "moMessage.ID ?m3 = ''m3''"
    by (simp_all add: sample_message_def)
  have a1: "FromMe ?m1 = False" by (simp add: sample_message_def)
  have a2: "NewWhatsAppURN sample_env (strings_Replace (Author ?m1) ''@c.us'' '''' 1) = Inr sample_urn"
    by (rule sample_urns)
  have a3: "?ev1 = receiveMessage_ev sample_env sample_channel sample_urn ?m1" by simp
  have a4: "?E1 = (if Type ?m1 = ''image''
                   then WithAttachment (Body ?m1) (fst (CheckExternalIDSeen ?B ?ev1 sample_store))
                   else fst (CheckExternalIDSeen ?B ?ev1 sample_store))"
    by (simp add: spec_Backend_simps receiveMessage_ev_fields sample_store_def empty_store_def,
        simp add: sample_message_def)
  have a5: "fst (WriteMsg ?B ?E1 (snd (CheckExternalIDSeen ?B ?ev1 sample_store))) = None"
    by (simp add: spec_Backend_simps receiveMessage_ev_fields WithAttachment_def)
  have pr1: "?R1 = (fst ?R1, snd ?R1)" by simp
  have pr2: "?R2 = (fst ?R2, snd ?R2)" by simp
  note T = receiveMessage_idempotent [where message = ?m1 and e = sample_env and urn = sample_urn
      and ev = ?ev1 and channel = sample_channel and event = ?E1 and b = ?B
      and t = sample_store and calls = "[]" and fail = "\<lambda>m. None" and payload = sample_payload
      and payload' = sample_payload       and s = sample_store and ?out1.0 = "fst ?R1" and ?s1.0 = "snd ?R1"
      and ?out2.0 = "fst ?R2" and ?s2.0 = "snd ?R2" and x = "''m1''"]
  from T [THEN conjunct1, rule_format, OF a1 a2 a3 a4] a5
  have calls: "snd (snd (receiveMessage_message sample_env (recording ?B) sample_channel ?m1
      (sample_store, []))) =
      [Call_CheckExternalIDSeen ?ev1, Call_WriteMsg ?E1, Call_WriteExternalIDSeen ?E1]"
    by simp
  note U = T [THEN conjunct2, rule_format, OF pr1 pr2]
  have cover: "\<forall>m' \<in> set (Messages sample_payload). \<not> FromMe m' \<longrightarrow>
      (\<exists>m \<in> set (Messages sample_payload). \<not> FromMe m \<and> moMessage.ID m = moMessage.ID m')"
    by blast
  from U answered1 cover have same: "written (snd ?R2) = written (snd ?R1)"
    by blast
  from U answered1 have all: "\<forall>m \<in> set (Messages sample_payload). \<not> FromMe m \<longrightarrow>
       persisted (moMessage.ID m) (snd ?R2) =
         persisted (moMessage.ID m) sample_store +
         (if moMessage.ID m \<in> set (seen sample_store) then 0 else 1)"
    by blast
  from all [rule_format, OF in1 own(1)] ids(1) before(1) before(3)
  have p1: "persisted ''m1'' (snd ?R2) = 1" by simp
  from all [rule_format, OF in3 own(2)] ids(2) before(2) before(4)
  have p3: "persisted ''m3'' (snd ?R2) = 1" by simp
  from calls ex before(1) before(2) p1 p3 same show ?thesis
    by blast
qed

end
